theory Spec2Isabelle
  imports Complex_Main "HOL-Library.Multiset" "HOL-Library.Log_Nat"
begin

section \<open>JavaScript values of the request and of the stored records\<close>

text \<open>
  The handlers of \<^verbatim>\<open>mcp-task-server-v2.js\<close> read the fields of a JSON request body
  and store them unchecked, so a field holds whatever JSON value the client sent.
  The model covers the values that the tool schemas name (strings, arrays of strings,
  booleans) together with \<^verbatim>\<open>null\<close> and an absent field (\<^verbatim>\<open>undefined\<close>).
  JSON numbers and nested objects are outside the model.
\<close>

datatype jsval = Undefined | Null | Bool bool | Str string | Arr "string list"

text \<open>JavaScript truthiness, as used by \<^verbatim>\<open>||\<close>, \<^verbatim>\<open>&&\<close> and \<^verbatim>\<open>if\<close>.\<close>

fun truthy :: "jsval \<Rightarrow> bool" where
  "truthy Undefined = False"
| "truthy Null = False"
| "truthy (Bool b) = b"
| "truthy (Str s) = (s \<noteq> [])"
| "truthy (Arr xs) = True"

definition js_or :: "jsval \<Rightarrow> jsval \<Rightarrow> jsval" where
  "js_or a b = (if truthy a then a else b)"

text \<open>
  Strict equality \<^verbatim>\<open>===\<close>. Two arrays are equal only when they are the same
  object; every array met here was parsed from a request of its own, so two array
  operands are never the same object.
\<close>

fun strict_eq :: "jsval \<Rightarrow> jsval \<Rightarrow> bool" where
  "strict_eq Undefined Undefined = True"
| "strict_eq Null Null = True"
| "strict_eq (Bool a) (Bool b) = (a = b)"
| "strict_eq (Str a) (Str b) = (a = b)"
| "strict_eq _ _ = False"

fun join_comma :: "string list \<Rightarrow> string" where
  "join_comma [] = []"
| "join_comma [x] = x"
| "join_comma (x # y # ys) = x @ '','' @ join_comma (y # ys)"

text \<open>\<^verbatim>\<open>ToString\<close>, which also gives the property key of \<^verbatim>\<open>priorityOrder[v]\<close>.\<close>

fun to_string :: "jsval \<Rightarrow> string" where
  "to_string Undefined = ''undefined''"
| "to_string Null = ''null''"
| "to_string (Bool b) = (if b then ''true'' else ''false'')"
| "to_string (Str s) = s"
| "to_string (Arr xs) = join_comma xs"

text \<open>
  A JavaScript number that the handlers compute is an integer or \<^verbatim>\<open>NaN\<close>;
  \<open>None\<close> stands for \<^verbatim>\<open>NaN\<close>.
\<close>

type_synonym jsnum = "int option"

definition js_sub :: "jsnum \<Rightarrow> jsnum \<Rightarrow> jsnum" where
  "js_sub a b = (case a of None \<Rightarrow> None
                 | Some x \<Rightarrow> (case b of None \<Rightarrow> None | Some y \<Rightarrow> Some (x - y)))"

text \<open>
  The time value of \<^verbatim>\<open>new Date(v)\<close>. The parser of date strings belongs to the
  JavaScript engine and is a parameter; it returns \<open>None\<close> for an invalid date.
\<close>

fun new_Date :: "(string \<Rightarrow> jsnum) \<Rightarrow> jsval \<Rightarrow> jsnum" where
  "new_Date parse Undefined = None"
| "new_Date parse Null = Some 0"
| "new_Date parse (Bool b) = Some (if b then 1 else 0)"
| "new_Date parse (Str s) = parse s"
| "new_Date parse (Arr xs) = parse (join_comma xs)"

section \<open>Numbers in double precision\<close>

text \<open>
  The quotient and the product of \<^verbatim>\<open>Math.round((done / total) * 100)\<close> are operations on
  IEEE 754 double-precision numbers: each returns the double nearest to the exact
  result, and of two nearest doubles the one whose significand is even. A finite
  double is modelled by the rational number that it denotes. The operands met here are
  array lengths, their quotient and its product with \<open>100\<close>, which are far from both
  ends of the exponent range; the model leaves the exponent unbounded, so it has no
  overflow to \<^verbatim>\<open>Infinity\<close> and no subnormal numbers.
\<close>

text \<open>The exponent \<open>e\<close> of a number \<open>x \<noteq> 0\<close>: \<open>2\<^sup>e \<le> \<bar>x\<bar> < 2\<^sup>e\<^sup>+\<^sup>1\<close>.\<close>

definition binade :: "rat \<Rightarrow> int" where
  "binade x =
     (let e0 = bitlen (fst (quotient_of \<bar>x\<bar>)) - bitlen (snd (quotient_of \<bar>x\<bar>))
      in if 2 powi e0 \<le> \<bar>x\<bar> then e0 else e0 - 1)"

text \<open>The nearest integer, a tie going to the even one.\<close>

definition round_half_even :: "rat \<Rightarrow> int" where
  "round_half_even m =
     (let f = \<lfloor>m\<rfloor>; r = m - of_int f
      in if r < 1 / 2 then f else if 1 / 2 < r then f + 1 else if even f then f else f + 1)"

text \<open>
  The double nearest to \<open>x\<close>: \<open>x\<close> rounded to a significand of 53 bits, that is to a
  multiple of \<open>2\<^sup>e\<^sup>-\<^sup>5\<^sup>2\<close> where \<open>e\<close> is the exponent of \<open>x\<close>.
\<close>

definition to_double :: "rat \<Rightarrow> rat" where
  "to_double x =
     (if x = 0 then 0
      else of_int (round_half_even (x / 2 powi (binade x - 52))) * 2 powi (binade x - 52))"

text \<open>The operators \<^verbatim>\<open>/\<close> (for a divisor other than \<open>0\<close>) and \<^verbatim>\<open>*\<close> on doubles.\<close>

definition js_div :: "rat \<Rightarrow> rat \<Rightarrow> rat" where
  "js_div a b = to_double (a / b)"

definition js_mul :: "rat \<Rightarrow> rat \<Rightarrow> rat" where
  "js_mul a b = to_double (a * b)"

text \<open>\<^verbatim>\<open>Math.round\<close>: the nearest integer, a tie going up.\<close>

definition Math_round :: "rat \<Rightarrow> int" where
  "Math_round x = \<lfloor>x + 1 / 2\<rfloor>"

section \<open>Array operations\<close>

text \<open>\<^verbatim>\<open>Array.prototype.findIndex\<close>: the first index whose element satisfies
  the predicate, \<open>None\<close> for \<^verbatim>\<open>-1\<close>. \<^verbatim>\<open>Array.prototype.find\<close> is \<^const>\<open>List.find\<close>.\<close>

fun findIndex :: "('a \<Rightarrow> bool) \<Rightarrow> 'a list \<Rightarrow> nat option" where
  "findIndex P [] = None"
| "findIndex P (x # xs) =
     (if P x then Some 0 else map_option Suc (findIndex P xs))"

text \<open>\<^verbatim>\<open>xs.splice(i, 1)\<close>: the array without its element at index \<open>i\<close>.\<close>

definition splice1 :: "nat \<Rightarrow> 'a list \<Rightarrow> 'a list" where
  "splice1 i xs = take i xs @ drop (Suc i) xs"

text \<open>
  \<^verbatim>\<open>const x = xs.find(P); if (x) { mutate x }\<close>: the object that \<^verbatim>\<open>find\<close> returns is
  the array's own element, so the mutation changes the first element satisfying \<open>P\<close>
  in place and nothing else.
\<close>

fun modify_first :: "('a \<Rightarrow> bool) \<Rightarrow> ('a \<Rightarrow> 'a) \<Rightarrow> 'a list \<Rightarrow> 'a list" where
  "modify_first P f [] = []"
| "modify_first P f (x # xs) = (if P x then f x # xs else x # modify_first P f xs)"

text \<open>
  \<^verbatim>\<open>Array.prototype.sort(compareFn)\<close>. A comparator result of \<^verbatim>\<open>NaN\<close> counts as
  \<open>0\<close>. The language requires the sort to be stable, which fixes the result for every
  consistent comparator; the model is the stable insertion sort. For a comparator that
  is not consistent on the array the language leaves the order to the engine, and
  the theorems below say nothing about that case.
\<close>

definition cmp_gt :: "('a \<Rightarrow> 'a \<Rightarrow> jsnum) \<Rightarrow> 'a \<Rightarrow> 'a \<Rightarrow> bool" where
  "cmp_gt cmp x y = (case cmp x y of None \<Rightarrow> False | Some v \<Rightarrow> 0 < v)"

fun js_insert :: "('a \<Rightarrow> 'a \<Rightarrow> jsnum) \<Rightarrow> 'a \<Rightarrow> 'a list \<Rightarrow> 'a list" where
  "js_insert cmp x [] = [x]"
| "js_insert cmp x (y # ys) =
     (if cmp_gt cmp x y then y # js_insert cmp x ys else x # y # ys)"

fun js_sort :: "('a \<Rightarrow> 'a \<Rightarrow> jsnum) \<Rightarrow> 'a list \<Rightarrow> 'a list" where
  "js_sort cmp [] = []"
| "js_sort cmp (x # xs) = js_insert cmp x (js_sort cmp xs)"

section \<open>The store\<close>

record project =
  p_id :: string
  p_name :: jsval
  p_description :: jsval
  p_status :: jsval
  p_priority :: jsval
  p_due_date :: jsval
  p_tags :: jsval
  p_created_at :: string
  p_updated_at :: string

record task =
  t_id :: string
  t_title :: jsval
  t_description :: jsval
  t_project_id :: jsval
  t_project_name :: jsval
  t_status :: jsval
  t_priority :: jsval
  t_due_date :: jsval
  t_assignee :: jsval
  t_tags :: jsval
  t_parent_task_id :: jsval
  t_created_at :: string
  t_updated_at :: string
  t_subtasks :: "string list"

text \<open>The module's variables \<^verbatim>\<open>projects\<close>, \<^verbatim>\<open>tasks\<close> and \<^verbatim>\<open>lastModified\<close>.\<close>

record store =
  projects :: "project list"
  tasks :: "task list"
  lastModified :: string

text \<open>The argument object of a tool call; a field that the request does not carry
  is \<^const>\<open>Undefined\<close>.\<close>

record args =
  a_id :: jsval
  a_name :: jsval
  a_title :: jsval
  a_description :: jsval
  a_status :: jsval
  a_priority :: jsval
  a_due_date :: jsval
  a_assignee :: jsval
  a_tags :: jsval
  a_project_id :: jsval
  a_parent_task_id :: jsval
  a_delete_tasks :: jsval
  a_task_id :: jsval
  a_new_project_id :: jsval

definition no_args :: args where
  "no_args = \<lparr>a_id = Undefined, a_name = Undefined, a_title = Undefined,
     a_description = Undefined, a_status = Undefined, a_priority = Undefined,
     a_due_date = Undefined, a_assignee = Undefined, a_tags = Undefined,
     a_project_id = Undefined, a_parent_task_id = Undefined,
     a_delete_tasks = Undefined, a_task_id = Undefined, a_new_project_id = Undefined\<rparr>"

section \<open>What a handler does to the response\<close>

text \<open>
  \<^verbatim>\<open>saveProjects\<close> and \<^verbatim>\<open>saveTasks\<close> are declared with \<^verbatim>\<open>const\<close> inside the block of
  \<^verbatim>\<open>if (process.env.REPLIT_DB_URL) { ... }\<close> (lines 18 to 44), so neither name is in scope
  in a handler. Evaluating \<^verbatim>\<open>if (saveTasks) saveTasks();\<close> there throws a
  \<^verbatim>\<open>ReferenceError\<close> whatever the environment: the handler stops at that
  statement, after the mutations that precede it and before the \<^verbatim>\<open>res.json\<close> that
  follows it.
\<close>

datatype js_error = ReferenceError string

record task_counts =
  tc_total :: nat
  tc_todo :: nat
  tc_in_progress :: nat
  tc_done :: nat

record project_with_counts =
  pc_project :: project
  pc_task_counts :: task_counts

record statistics =
  total_tasks :: nat
  st_todo :: nat
  st_in_progress :: nat
  st_done :: nat
  completion_percentage :: int

record tasks_by_priority =
  bp_urgent :: nat
  bp_high :: nat
  bp_medium :: nat
  bp_low :: nat

record summary =
  sm_project :: project
  sm_statistics :: statistics
  sm_tasks_by_priority :: tasks_by_priority
  recent_tasks :: "task list"

text \<open>The JSON bodies that are sent; the human-readable \<^verbatim>\<open>content\<close> text, which
  repeats values of the body, is left out.\<close>

datatype payload =
    ProjectList "project_with_counts list" nat string
  | TaskList "task list" nat string
  | DeletedProject project
  | Summary summary

datatype reply = Json payload | Status404 string

datatype outcome =
    Sent reply
  | Threw js_error
  | SentThenThrew reply js_error

section \<open>Project handlers\<close>

text \<open>The filter \<^verbatim>\<open>if (args.f && args.f !== 'all')\<close> of both list handlers.\<close>

definition filter_wanted :: "jsval \<Rightarrow> bool" where
  "filter_wanted v = (truthy v \<and> \<not> strict_eq v (Str ''all''))"

definition task_counts_of :: "task list \<Rightarrow> project \<Rightarrow> task_counts" where
  "task_counts_of ts project =
     (let projectTasks = filter (\<lambda>t. strict_eq (t_project_id t) (Str (p_id project))) ts
      in \<lparr>tc_total = length projectTasks,
          tc_todo = length (filter (\<lambda>t. strict_eq (t_status t) (Str ''todo'')) projectTasks),
          tc_in_progress =
            length (filter (\<lambda>t. strict_eq (t_status t) (Str ''in_progress'')) projectTasks),
          tc_done = length (filter (\<lambda>t. strict_eq (t_status t) (Str ''done'')) projectTasks)\<rparr>)"

text \<open>
  The object literal \<^verbatim>\<open>{ urgent: 0, high: 1, medium: 2, low: 3 }\<close> read at a key.
  Any other key gives \<^verbatim>\<open>undefined\<close> or a member inherited from \<^verbatim>\<open>Object.prototype\<close>;
  both become \<^verbatim>\<open>NaN\<close> in the subtraction that follows.
\<close>

definition priorityOrder :: "string \<Rightarrow> jsnum" where
  "priorityOrder k =
     (if k = ''urgent'' then Some 0
      else if k = ''high'' then Some 1
      else if k = ''medium'' then Some 2
      else if k = ''low'' then Some 3
      else None)"

text \<open>The comparator that both list handlers pass to \<^verbatim>\<open>sort\<close>: \<open>pa\<close> and
  \<open>da\<close> are \<^verbatim>\<open>a.priority\<close> and \<^verbatim>\<open>a.due_date\<close>, \<open>pb\<close> and \<open>db\<close> those of \<^verbatim>\<open>b\<close>.\<close>

definition compare_priority_due ::
  "(string \<Rightarrow> jsnum) \<Rightarrow> jsval \<Rightarrow> jsval \<Rightarrow> jsval \<Rightarrow> jsval \<Rightarrow> jsnum" where
  "compare_priority_due parse pa da pb db =
     (if \<not> strict_eq pa pb
      then js_sub (priorityOrder (to_string pa)) (priorityOrder (to_string pb))
      else if truthy da \<and> truthy db
      then js_sub (new_Date parse da) (new_Date parse db)
      else Some 0)"

definition compare_projects ::
  "(string \<Rightarrow> jsnum) \<Rightarrow> project_with_counts \<Rightarrow> project_with_counts \<Rightarrow> jsnum" where
  "compare_projects parse a b =
     compare_priority_due parse
       (p_priority (pc_project a)) (p_due_date (pc_project a))
       (p_priority (pc_project b)) (p_due_date (pc_project b))"

definition handleListProjects :: "(string \<Rightarrow> jsnum) \<Rightarrow> args \<Rightarrow> store \<Rightarrow> store \<times> outcome" where
  "handleListProjects parse args s =
     (let filtered = projects s;
          filtered = (if filter_wanted (a_status args)
                      then filter (\<lambda>p. strict_eq (p_status p) (a_status args)) filtered
                      else filtered);
          projectsWithCounts =
            map (\<lambda>project. \<lparr>pc_project = project,
                             pc_task_counts = task_counts_of (tasks s) project\<rparr>) filtered;
          projectsWithCounts = js_sort (compare_projects parse) projectsWithCounts
      in (s, Sent (Json (ProjectList projectsWithCounts (length projectsWithCounts)
                           (lastModified s)))))"

definition handleCreateProject :: "string \<Rightarrow> string \<Rightarrow> args \<Rightarrow> store \<Rightarrow> store \<times> outcome" where
  "handleCreateProject uuid now args s =
     (let newProject =
            \<lparr>p_id = uuid,
             p_name = a_name args,
             p_description = js_or (a_description args) (Str []),
             p_status = js_or (a_status args) (Str ''todo''),
             p_priority = js_or (a_priority args) (Str ''medium''),
             p_due_date = js_or (a_due_date args) Null,
             p_tags = js_or (a_tags args) (Arr []),
             p_created_at = now,
             p_updated_at = now\<rparr>
      in (s\<lparr>projects := projects s @ [newProject]\<rparr>,
          Threw (ReferenceError ''saveProjects'')))"

definition handleUpdateProject :: "string \<Rightarrow> args \<Rightarrow> store \<Rightarrow> store \<times> outcome" where
  "handleUpdateProject now args s =
     (case findIndex (\<lambda>p. strict_eq (Str (p_id p)) (a_id args)) (projects s) of
        None \<Rightarrow> (s, Sent (Status404 ''Project not found''))
      | Some projectIndex \<Rightarrow>
          (let project = projects s ! projectIndex;
               project = (if a_name args \<noteq> Undefined
                          then project\<lparr>p_name := a_name args\<rparr> else project);
               project = (if a_description args \<noteq> Undefined
                          then project\<lparr>p_description := a_description args\<rparr> else project);
               project = (if a_status args \<noteq> Undefined
                          then project\<lparr>p_status := a_status args\<rparr> else project);
               project = (if a_priority args \<noteq> Undefined
                          then project\<lparr>p_priority := a_priority args\<rparr> else project);
               project = (if a_due_date args \<noteq> Undefined
                          then project\<lparr>p_due_date := a_due_date args\<rparr> else project);
               project = (if a_tags args \<noteq> Undefined
                          then project\<lparr>p_tags := a_tags args\<rparr> else project);
               project = project\<lparr>p_updated_at := now\<rparr>
           in (s\<lparr>projects := (projects s)[projectIndex := project]\<rparr>,
               Threw (ReferenceError ''saveProjects''))))"

definition handleDeleteProject :: "args \<Rightarrow> store \<Rightarrow> store \<times> outcome" where
  "handleDeleteProject args s =
     (case findIndex (\<lambda>p. strict_eq (Str (p_id p)) (a_id args)) (projects s) of
        None \<Rightarrow> (s, Sent (Status404 ''Project not found''))
      | Some projectIndex \<Rightarrow>
          (let deletedProject = projects s ! projectIndex;
               s = s\<lparr>projects := splice1 projectIndex (projects s)\<rparr>
           in if truthy (a_delete_tasks args)
              then (s\<lparr>tasks := filter (\<lambda>t. \<not> strict_eq (t_project_id t) (a_id args)) (tasks s)\<rparr>,
                    Threw (ReferenceError ''saveTasks''))
              else (s, SentThenThrew (Json (DeletedProject deletedProject))
                         (ReferenceError ''saveProjects''))))"

section \<open>Task handlers\<close>

definition compare_tasks :: "(string \<Rightarrow> jsnum) \<Rightarrow> task \<Rightarrow> task \<Rightarrow> jsnum" where
  "compare_tasks parse a b =
     compare_priority_due parse (t_priority a) (t_due_date a) (t_priority b) (t_due_date b)"

definition handleListTasks :: "(string \<Rightarrow> jsnum) \<Rightarrow> args \<Rightarrow> store \<Rightarrow> store \<times> outcome" where
  "handleListTasks parse args s =
     (let filtered = tasks s;
          filtered = (if truthy (a_project_id args)
                      then filter (\<lambda>t. strict_eq (t_project_id t) (a_project_id args)) filtered
                      else filtered);
          filtered = (if filter_wanted (a_status args)
                      then filter (\<lambda>t. strict_eq (t_status t) (a_status args)) filtered
                      else filtered);
          filtered = (if filter_wanted (a_priority args)
                      then filter (\<lambda>t. strict_eq (t_priority t) (a_priority args)) filtered
                      else filtered);
          tasksWithProjects =
            map (\<lambda>task.
                   task\<lparr>t_project_name :=
                     (case find (\<lambda>p. strict_eq (Str (p_id p)) (t_project_id task)) (projects s) of
                        Some project \<Rightarrow> p_name project
                      | None \<Rightarrow> Str ''Unknown Project'')\<rparr>) filtered;
          tasksWithProjects = js_sort (compare_tasks parse) tasksWithProjects
      in (s, Sent (Json (TaskList tasksWithProjects (length tasksWithProjects)
                           (lastModified s)))))"

definition handleCreateTask :: "string \<Rightarrow> string \<Rightarrow> args \<Rightarrow> store \<Rightarrow> store \<times> outcome" where
  "handleCreateTask uuid now args s =
     (case find (\<lambda>p. strict_eq (Str (p_id p)) (a_project_id args)) (projects s) of
        None \<Rightarrow> (s, Sent (Status404 ''Project not found''))
      | Some project \<Rightarrow>
          (let newTask =
                 \<lparr>t_id = uuid,
                  t_title = a_title args,
                  t_description = js_or (a_description args) (Str []),
                  t_project_id = a_project_id args,
                  t_project_name = p_name project,
                  t_status = js_or (a_status args) (Str ''todo''),
                  t_priority = js_or (a_priority args) (Str ''medium''),
                  t_due_date = js_or (a_due_date args) Null,
                  t_assignee = js_or (a_assignee args) Null,
                  t_tags = js_or (a_tags args) (Arr []),
                  t_parent_task_id = js_or (a_parent_task_id args) Null,
                  t_created_at = now,
                  t_updated_at = now,
                  t_subtasks = []\<rparr>;
               ts = tasks s @ [newTask];
               ts = (if truthy (a_parent_task_id args)
                     then modify_first (\<lambda>t. strict_eq (Str (t_id t)) (a_parent_task_id args))
                            (\<lambda>parent. parent\<lparr>t_subtasks := t_subtasks parent @ [t_id newTask]\<rparr>) ts
                     else ts)
           in (s\<lparr>tasks := ts\<rparr>, Threw (ReferenceError ''saveTasks''))))"

definition handleUpdateTask :: "string \<Rightarrow> args \<Rightarrow> store \<Rightarrow> store \<times> outcome" where
  "handleUpdateTask now args s =
     (case findIndex (\<lambda>t. strict_eq (Str (t_id t)) (a_id args)) (tasks s) of
        None \<Rightarrow> (s, Sent (Status404 ''Task not found''))
      | Some taskIndex \<Rightarrow>
          (let task = tasks s ! taskIndex;
               task = (if a_title args \<noteq> Undefined
                       then task\<lparr>t_title := a_title args\<rparr> else task);
               task = (if a_description args \<noteq> Undefined
                       then task\<lparr>t_description := a_description args\<rparr> else task);
               task = (if a_status args \<noteq> Undefined
                       then task\<lparr>t_status := a_status args\<rparr> else task);
               task = (if a_priority args \<noteq> Undefined
                       then task\<lparr>t_priority := a_priority args\<rparr> else task);
               task = (if a_due_date args \<noteq> Undefined
                       then task\<lparr>t_due_date := a_due_date args\<rparr> else task);
               task = (if a_assignee args \<noteq> Undefined
                       then task\<lparr>t_assignee := a_assignee args\<rparr> else task);
               task = (if a_tags args \<noteq> Undefined
                       then task\<lparr>t_tags := a_tags args\<rparr> else task);
               task = task\<lparr>t_updated_at := now\<rparr>
           in (s\<lparr>tasks := (tasks s)[taskIndex := task]\<rparr>,
               Threw (ReferenceError ''saveTasks''))))"

definition handleDeleteTask :: "args \<Rightarrow> store \<Rightarrow> store \<times> outcome" where
  "handleDeleteTask args s =
     (case findIndex (\<lambda>t. strict_eq (Str (t_id t)) (a_id args)) (tasks s) of
        None \<Rightarrow> (s, Sent (Status404 ''Task not found''))
      | Some taskIndex \<Rightarrow>
          (let deletedTask = tasks s ! taskIndex;
               ts = splice1 taskIndex (tasks s);
               ts = (if truthy (t_parent_task_id deletedTask)
                     then modify_first
                            (\<lambda>t. strict_eq (Str (t_id t)) (t_parent_task_id deletedTask))
                            (\<lambda>parent. parent\<lparr>t_subtasks :=
                               filter (\<lambda>i. i \<noteq> t_id deletedTask) (t_subtasks parent)\<rparr>) ts
                     else ts)
           in (s\<lparr>tasks := ts\<rparr>, Threw (ReferenceError ''saveTasks''))))"

definition handleMoveTask :: "string \<Rightarrow> args \<Rightarrow> store \<Rightarrow> store \<times> outcome" where
  "handleMoveTask now args s =
     (case find (\<lambda>t. strict_eq (Str (t_id t)) (a_task_id args)) (tasks s) of
        None \<Rightarrow> (s, Sent (Status404 ''Task not found''))
      | Some task \<Rightarrow>
          (case find (\<lambda>p. strict_eq (Str (p_id p)) (a_new_project_id args)) (projects s) of
             None \<Rightarrow> (s, Sent (Status404 ''New project not found''))
           | Some newProject \<Rightarrow>
               (s\<lparr>tasks :=
                    modify_first (\<lambda>t. strict_eq (Str (t_id t)) (a_task_id args))
                      (\<lambda>task. task\<lparr>t_project_id := a_new_project_id args,
                                   t_project_name := p_name newProject,
                                   t_updated_at := now\<rparr>) (tasks s)\<rparr>,
                Threw (ReferenceError ''saveTasks''))))"

text \<open>
  \<^verbatim>\<open>new Date(b.updated_at) - new Date(a.updated_at)\<close>, the comparator of the summary's
  recent tasks.
\<close>

definition compare_updated_desc :: "(string \<Rightarrow> jsnum) \<Rightarrow> task \<Rightarrow> task \<Rightarrow> jsnum" where
  "compare_updated_desc parse a b =
     js_sub (new_Date parse (Str (t_updated_at b))) (new_Date parse (Str (t_updated_at a)))"

text \<open>
  The two array lengths of \<^verbatim>\<open>Math.round((done / total) * 100)\<close> are integers below
  \<open>2\<^sup>3\<^sup>2\<close>, which are doubles; the quotient and the product are rounded to doubles.
\<close>

definition handleGetProjectSummary ::
  "(string \<Rightarrow> jsnum) \<Rightarrow> args \<Rightarrow> store \<Rightarrow> store \<times> outcome" where
  "handleGetProjectSummary parse args s =
     (case find (\<lambda>p. strict_eq (Str (p_id p)) (a_id args)) (projects s) of
        None \<Rightarrow> (s, Sent (Status404 ''Project not found''))
      | Some project \<Rightarrow>
          (let projectTasks = filter (\<lambda>t. strict_eq (t_project_id t) (a_id args)) (tasks s);
               count_status = (\<lambda>v. length (filter (\<lambda>t. strict_eq (t_status t) (Str v)) projectTasks));
               count_priority =
                 (\<lambda>v. length (filter (\<lambda>t. strict_eq (t_priority t) (Str v)) projectTasks))
           in (s, Sent (Json (Summary
                \<lparr>sm_project = project,
                 sm_statistics =
                   \<lparr>total_tasks = length projectTasks,
                    st_todo = count_status ''todo'',
                    st_in_progress = count_status ''in_progress'',
                    st_done = count_status ''done'',
                    completion_percentage =
                      (if length projectTasks > 0
                       then Math_round
                              (js_mul
                                 (js_div (of_nat (count_status ''done''))
                                    (of_nat (length projectTasks))) 100)
                       else 0)\<rparr>,
                 sm_tasks_by_priority =
                   \<lparr>bp_urgent = count_priority ''urgent'',
                    bp_high = count_priority ''high'',
                    bp_medium = count_priority ''medium'',
                    bp_low = count_priority ''low''\<rparr>,
                 recent_tasks =
                   take 5 (js_sort (compare_updated_desc parse) projectTasks)\<rparr>)))))"

section \<open>The dispatcher\<close>

text \<open>What a request finds outside the store: the identifier that \<^verbatim>\<open>uuidv4()\<close>
  returns and the time that \<^verbatim>\<open>new Date().toISOString()\<close> returns.\<close>

record env =
  env_uuid :: string
  env_now :: string

text \<open>The \<^verbatim>\<open>switch\<close> of \<^verbatim>\<open>app.post('/tools/:toolName')\<close>.\<close>

definition tool_call ::
  "(string \<Rightarrow> jsnum) \<Rightarrow> env \<Rightarrow> string \<Rightarrow> args \<Rightarrow> store
     \<Rightarrow> store \<times> outcome" where
  "tool_call parse e toolName args s =
     (if toolName = ''list_projects'' then handleListProjects parse args s
      else if toolName = ''create_project'' then handleCreateProject (env_uuid e) (env_now e) args s
      else if toolName = ''update_project'' then handleUpdateProject (env_now e) args s
      else if toolName = ''delete_project'' then handleDeleteProject args s
      else if toolName = ''list_tasks'' then handleListTasks parse args s
      else if toolName = ''create_task'' then handleCreateTask (env_uuid e) (env_now e) args s
      else if toolName = ''update_task'' then handleUpdateTask (env_now e) args s
      else if toolName = ''delete_task'' then handleDeleteTask args s
      else if toolName = ''move_task'' then handleMoveTask (env_now e) args s
      else if toolName = ''get_project_summary''
        then handleGetProjectSummary parse args s
      else (s, Sent (Status404 (''Unknown tool: '' @ toolName))))"

text \<open>The store after a sequence of requests, each with its environment.\<close>

fun run ::
  "(string \<Rightarrow> jsnum) \<Rightarrow> (env \<times> string \<times> args) list \<Rightarrow> store \<Rightarrow> store" where
  "run parse [] s = s"
| "run parse ((e, toolName, args) # rs) s =
     run parse rs (fst (tool_call parse e toolName args s))"

definition empty_store :: "string \<Rightarrow> store" where
  "empty_store started = \<lparr>projects = [], tasks = [], lastModified = started\<rparr>"

section \<open>Notions used by the statements\<close>



text \<open>The collections that the two list handlers sort: the stored records that pass
  the request's filters, each with what the handler adds to it.\<close>

definition wanted_projects :: "args \<Rightarrow> store \<Rightarrow> project list" where
  "wanted_projects args s =
     (if filter_wanted (a_status args)
      then filter (\<lambda>p. strict_eq (p_status p) (a_status args)) (projects s)
      else projects s)"

definition with_counts :: "store \<Rightarrow> project \<Rightarrow> project_with_counts" where
  "with_counts s project =
     \<lparr>pc_project = project, pc_task_counts = task_counts_of (tasks s) project\<rparr>"

definition wanted_tasks :: "args \<Rightarrow> store \<Rightarrow> task list" where
  "wanted_tasks args s =
     filter (\<lambda>t. (truthy (a_project_id args) \<longrightarrow> strict_eq (t_project_id t) (a_project_id args))
                \<and> (filter_wanted (a_status args) \<longrightarrow> strict_eq (t_status t) (a_status args))
                \<and> (filter_wanted (a_priority args) \<longrightarrow> strict_eq (t_priority t) (a_priority args)))
       (tasks s)"

definition live_project_name :: "store \<Rightarrow> task \<Rightarrow> jsval" where
  "live_project_name s task =
     (case find (\<lambda>p. strict_eq (Str (p_id p)) (t_project_id task)) (projects s) of
        Some project \<Rightarrow> p_name project
      | None \<Rightarrow> Str ''Unknown Project'')"

definition with_project_name :: "store \<Rightarrow> task \<Rightarrow> task" where
  "with_project_name s task = task\<lparr>t_project_name := live_project_name s task\<rparr>"


fun replied_tasks :: "store \<times> outcome \<Rightarrow> task list" where
  "replied_tasks (s, Sent (Json (TaskList ts n lm))) = ts"
| "replied_tasks _ = []"




text \<open>
  The invariant that the specification states of the subtask lists: the ids in the
  \<^verbatim>\<open>subtasks\<close> of every stored task are the ids of the stored tasks whose
  \<^verbatim>\<open>parent_task_id\<close> is that task's id.
\<close>

definition subtasks_consistent :: "store \<Rightarrow> bool" where
  "subtasks_consistent s =
     list_all (\<lambda>parent.
        set (t_subtasks parent)
          = set (map t_id (filter (\<lambda>t. strict_eq (t_parent_task_id t) (Str (t_id parent)))
                            (tasks s))))
       (tasks s)"

text \<open>
  The links between tasks, as the invariant reads them: the id, the parent and the
  subtask ids of every task. A list of links is linked when its ids are distinct, every
  parent is a truthy value or \<^verbatim>\<open>null\<close> (what \<^verbatim>\<open>args.parent_task_id || null\<close> stores),
  and the subtask ids of every entry are the ids of the entries that name it as parent.
\<close>

type_synonym link = "string \<times> jsval \<times> string list"

definition links :: "task list \<Rightarrow> link list" where
  "links ts = map (\<lambda>t. (t_id t, t_parent_task_id t, t_subtasks t)) ts"

definition children :: "link list \<Rightarrow> string \<Rightarrow> string set" where
  "children L i = fst ` {x \<in> set L. fst (snd x) = Str i}"

definition linked :: "link list \<Rightarrow> bool" where
  "linked L \<longleftrightarrow>
     distinct (map fst L)
     \<and> (\<forall>x \<in> set L. truthy (fst (snd x)) \<or> fst (snd x) = Null)
     \<and> (\<forall>x \<in> set L. set (snd (snd x)) = children L (fst x))"

definition add_child :: "jsval \<Rightarrow> string \<Rightarrow> link \<Rightarrow> link" where
  "add_child par u x =
     (if par = Str (fst x) then (fst x, fst (snd x), snd (snd x) @ [u]) else x)"

definition drop_child :: "jsval \<Rightarrow> string \<Rightarrow> link \<Rightarrow> link" where
  "drop_child par d x =
     (if par = Str (fst x) then (fst x, fst (snd x), filter (\<lambda>i. i \<noteq> d) (snd (snd x))) else x)"

text \<open>A generated task id is fresh: it is the id of no stored task, no stored task
  names it as its parent, and the request does not name it as the parent.\<close>

definition fresh_task_id :: "string \<Rightarrow> args \<Rightarrow> store \<Rightarrow> bool" where
  "fresh_task_id u args s \<longleftrightarrow>
     u \<notin> t_id ` set (tasks s)
     \<and> (\<forall>t \<in> set (tasks s). t_parent_task_id t \<noteq> Str u)
     \<and> a_parent_task_id args \<noteq> Str u"

text \<open>The requests other than a cascading \<^verbatim>\<open>delete_project\<close>, with a fresh id for
  every created task.\<close>

definition keeps_links :: "env \<Rightarrow> string \<Rightarrow> args \<Rightarrow> store \<Rightarrow> bool" where
  "keeps_links e toolName args s \<longleftrightarrow>
     (toolName = ''create_task'' \<longrightarrow> fresh_task_id (env_uuid e) args s)
     \<and> (toolName = ''delete_project'' \<longrightarrow> \<not> truthy (a_delete_tasks args))"

text \<open>Every request of a sequence keeps the links, in the store that it meets.\<close>

fun requests_keep_links ::
  "(string \<Rightarrow> jsnum) \<Rightarrow> (env \<times> string \<times> args) list \<Rightarrow> store
     \<Rightarrow> bool" where
  "requests_keep_links parse [] s = True"
| "requests_keep_links parse ((e, toolName, args) # rs) s =
     (keeps_links e toolName args s
      \<and> requests_keep_links parse rs
          (fst (tool_call parse e toolName args s)))"



text \<open>The summary that a handler's response carries, if it carries one.\<close>

fun replied_summary :: "store \<times> outcome \<Rightarrow> summary option" where
  "replied_summary (s, Sent (Json (Summary sm))) = Some sm"
| "replied_summary _ = None"

text \<open>
  The completion percentage as the specification words it, for comparison with what
  the code computes: \<open>done / total * 100\<close> in exact arithmetic, rounded to the nearest
  integer (a tie going up, as in \<^verbatim>\<open>Math.round\<close>), and \<open>0\<close> when there is no task.
\<close>

definition spec_completion_percentage :: "nat \<Rightarrow> nat \<Rightarrow> int" where
  "spec_completion_percentage d t =
     (if t = 0 then 0 else round (of_nat d / of_nat t * 100 :: rat))"

section \<open>Sample data\<close>

definition sample_project :: "string \<Rightarrow> jsval \<Rightarrow> jsval \<Rightarrow> project" where
  "sample_project i priority due =
     \<lparr>p_id = i, p_name = Str (''Project '' @ i), p_description = Str [],
      p_status = Str ''todo'', p_priority = priority, p_due_date = due, p_tags = Arr [],
      p_created_at = ''2025-01-01T00:00:00.000Z'', p_updated_at = ''2025-01-01T00:00:00.000Z''\<rparr>"

definition sample_task :: "string \<Rightarrow> string \<Rightarrow> jsval \<Rightarrow> string \<Rightarrow> task" where
  "sample_task i pid status updated =
     \<lparr>t_id = i, t_title = Str (''Task '' @ i), t_description = Str [],
      t_project_id = Str pid, t_project_name = Str (''Project '' @ pid),
      t_status = status, t_priority = Str ''medium'', t_due_date = Null, t_assignee = Null,
      t_tags = Arr [], t_parent_task_id = Null,
      t_created_at = ''2025-01-01T00:00:00.000Z'', t_updated_at = updated, t_subtasks = []\<rparr>"

definition sample_store :: store where
  "sample_store =
     \<lparr>projects = [sample_project ''p1'' (Str ''medium'') Null,
                  sample_project ''p2'' (Str ''urgent'') Null],
      tasks = [sample_task ''t1'' ''p1'' (Str ''todo'') ''2025-01-02T00:00:00.000Z'',
               sample_task ''t2'' ''p2'' (Str ''done'') ''2025-01-03T00:00:00.000Z'',
               sample_task ''t3'' ''p1'' (Str ''done'') ''2025-01-04T00:00:00.000Z''],
      lastModified = ''2025-01-01T00:00:00.000Z''\<rparr>"

definition sample_parse :: "string \<Rightarrow> jsnum" where
  "sample_parse d =
     (if d = ''2025-06-01'' then Some 1748736000000
      else if d = ''2025-01-02T00:00:00.000Z'' then Some 1735776000000
      else if d = ''2025-01-03T00:00:00.000Z'' then Some 1735862400000
      else if d = ''2025-01-04T00:00:00.000Z'' then Some 1735948800000
      else None)"




text \<open>A project with forty tasks, of which the first twenty-three are done.\<close>

definition forty_tasks_store :: store where
  "forty_tasks_store =
     \<lparr>projects = [sample_project ''p1'' (Str ''medium'') Null],
      tasks = map (\<lambda>i. sample_task (''t'' @ replicate i CHR ''i'') ''p1''
                          (if i < 23 then Str ''done'' else Str ''todo'')
                          ''2025-01-02T00:00:00.000Z'') [0..<40],
      lastModified = ''2025-01-01T00:00:00.000Z''\<rparr>"

text \<open>Two projects, a task in the first and a subtask of it in the second; and then
  the second project deleted together with its tasks.\<close>

definition linked_requests :: "(env \<times> string \<times> args) list" where
  "linked_requests =
     [(\<lparr>env_uuid = ''p1'', env_now = ''2025-01-01T00:00:01.000Z''\<rparr>, ''create_project'',
         no_args\<lparr>a_name := Str ''Launch''\<rparr>),
      (\<lparr>env_uuid = ''p2'', env_now = ''2025-01-01T00:00:02.000Z''\<rparr>, ''create_project'',
         no_args\<lparr>a_name := Str ''Review''\<rparr>),
      (\<lparr>env_uuid = ''t1'', env_now = ''2025-01-01T00:00:03.000Z''\<rparr>, ''create_task'',
         no_args\<lparr>a_title := Str ''Write copy'', a_project_id := Str ''p1''\<rparr>),
      (\<lparr>env_uuid = ''t2'', env_now = ''2025-01-01T00:00:04.000Z''\<rparr>, ''create_task'',
         no_args\<lparr>a_title := Str ''Proofread'', a_project_id := Str ''p2'',
                 a_parent_task_id := Str ''t1''\<rparr>)]"

definition cascade_requests :: "(env \<times> string \<times> args) list" where
  "cascade_requests =
     linked_requests
     @ [(\<lparr>env_uuid = ''u5'', env_now = ''2025-01-01T00:00:05.000Z''\<rparr>, ''delete_project'',
           no_args\<lparr>a_id := Str ''p2'', a_delete_tasks := Bool True\<rparr>)]"

section \<open>Basic facts\<close>

lemma strict_eq_Str_left [simp]: "strict_eq (Str a) v \<longleftrightarrow> v = Str a"
  by (cases v) auto

lemma strict_eq_Str_right [simp]: "strict_eq v (Str a) \<longleftrightarrow> v = Str a"
  by (cases v) auto

lemma findIndex_None_iff: "findIndex P xs = None \<longleftrightarrow> (\<forall>x \<in> set xs. \<not> P x)"
  by (induction xs) auto

lemma findIndex_Some:
  "findIndex P xs = Some i \<Longrightarrow> i < length xs \<and> P (xs ! i) \<and> (\<forall>j < i. \<not> P (xs ! j))"
proof (induction xs arbitrary: i)
  case Nil
  then show ?case by simp
next
  case (Cons x xs)
  show ?case
  proof (cases "P x")
    case True
    with Cons.prems show ?thesis by simp
  next
    case False
    with Cons.prems obtain k where k: "findIndex P xs = Some k" "i = Suc k"
      by auto
    from Cons.IH [OF k(1)] False k(2) show ?thesis
      by (auto simp: less_Suc_eq_0_disj)
  qed
qed

lemma length_modify_first [simp]: "length (modify_first P f xs) = length xs"
  by (induction xs) auto

lemma map_modify_first:
  "(\<And>x. g (f x) = g x) \<Longrightarrow> map g (modify_first P f xs) = map g xs"
  by (induction xs) auto

lemma mset_js_insert [simp]: "mset (js_insert cmp x ys) = add_mset x (mset ys)"
  by (induction ys) auto

lemma mset_js_sort [simp]: "mset (js_sort cmp xs) = mset xs"
  by (induction xs) auto

lemma set_js_insert [simp]: "set (js_insert cmp x ys) = insert x (set ys)"
  by (induction ys) auto

lemma set_js_sort [simp]: "set (js_sort cmp xs) = set xs"
  by (induction xs) auto

lemma length_js_sort [simp]: "length (js_sort cmp xs) = length xs"
  by (rule mset_eq_length) simp

section \<open>The handlers in closed form\<close>

lemma with_counts_fun:
  "with_counts s = (\<lambda>project. \<lparr>pc_project = project,
                                  pc_task_counts = task_counts_of (tasks s) project\<rparr>)"
  by (rule ext) (simp add: with_counts_def)

lemma with_project_name_fun:
  "with_project_name s =
     (\<lambda>task. task\<lparr>t_project_name :=
        (case find (\<lambda>p. strict_eq (Str (p_id p)) (t_project_id task)) (projects s) of
           Some project \<Rightarrow> p_name project
         | None \<Rightarrow> Str ''Unknown Project'')\<rparr>)"
  by (rule ext) (simp add: with_project_name_def live_project_name_def)

lemma handleListProjects_eq:
  "handleListProjects parse args s =
     (s, Sent (Json (ProjectList
        (js_sort (compare_projects parse) (map (with_counts s) (wanted_projects args s)))
        (length (wanted_projects args s)) (lastModified s))))"
  by (simp add: handleListProjects_def wanted_projects_def with_counts_fun Let_def)

lemma handleListTasks_eq:
  "handleListTasks parse args s =
     (s, Sent (Json (TaskList
        (js_sort (compare_tasks parse) (map (with_project_name s) (wanted_tasks args s)))
        (length (wanted_tasks args s)) (lastModified s))))"
  by (simp add: handleListTasks_def wanted_tasks_def with_project_name_fun Let_def
      conj_commute cong: conj_cong)

lemma handleUpdateTask_found:
  assumes "findIndex (\<lambda>t. strict_eq (Str (t_id t)) (a_id args)) (tasks s) = Some i"
  shows "handleUpdateTask now args s =
     (s\<lparr>tasks := (tasks s)[i := (tasks s ! i)
        \<lparr>t_title := (if a_title args \<noteq> Undefined then a_title args else t_title (tasks s ! i)),
         t_description := (if a_description args \<noteq> Undefined then a_description args
                           else t_description (tasks s ! i)),
         t_status := (if a_status args \<noteq> Undefined then a_status args
                      else t_status (tasks s ! i)),
         t_priority := (if a_priority args \<noteq> Undefined then a_priority args
                        else t_priority (tasks s ! i)),
         t_due_date := (if a_due_date args \<noteq> Undefined then a_due_date args
                        else t_due_date (tasks s ! i)),
         t_assignee := (if a_assignee args \<noteq> Undefined then a_assignee args
                        else t_assignee (tasks s ! i)),
         t_tags := (if a_tags args \<noteq> Undefined then a_tags args else t_tags (tasks s ! i)),
         t_updated_at := now\<rparr>]\<rparr>,
      Threw (ReferenceError ''saveTasks''))"
  using assms by (simp add: handleUpdateTask_def Let_def)

lemma handleUpdateProject_found:
  assumes "findIndex (\<lambda>p. strict_eq (Str (p_id p)) (a_id args)) (projects s) = Some i"
  shows "handleUpdateProject now args s =
     (s\<lparr>projects := (projects s)[i := (projects s ! i)
        \<lparr>p_name := (if a_name args \<noteq> Undefined then a_name args else p_name (projects s ! i)),
         p_description := (if a_description args \<noteq> Undefined then a_description args
                           else p_description (projects s ! i)),
         p_status := (if a_status args \<noteq> Undefined then a_status args
                      else p_status (projects s ! i)),
         p_priority := (if a_priority args \<noteq> Undefined then a_priority args
                        else p_priority (projects s ! i)),
         p_due_date := (if a_due_date args \<noteq> Undefined then a_due_date args
                        else p_due_date (projects s ! i)),
         p_tags := (if a_tags args \<noteq> Undefined then a_tags args else p_tags (projects s ! i)),
         p_updated_at := now\<rparr>]\<rparr>,
      Threw (ReferenceError ''saveProjects''))"
  using assms by (simp add: handleUpdateProject_def Let_def)

lemma find_findIndex: "find P xs = map_option (\<lambda>i. xs ! i) (findIndex P xs)"
  by (induction xs) (auto simp: option.map_comp comp_def)

lemma modify_first_findIndex:
  "findIndex P xs = Some i \<Longrightarrow> modify_first P f xs = xs[i := f (xs ! i)]"
  by (induction xs arbitrary: i) (auto split: if_splits)

lemma modify_first_absent: "\<forall>x \<in> set xs. \<not> P x \<Longrightarrow> modify_first P f xs = xs"
  by (induction xs) auto

section \<open>Creating a task in a project that does not exist\<close>

text \<open>
  C1. When the request's \<^verbatim>\<open>project_id\<close> is the id of no stored project,
  \<^verbatim>\<open>create_task\<close> answers 404 "Project not found" and the whole store, the task
  collection included, is what it was.
\<close>

theorem create_task_unknown_project:
  assumes "\<forall>p \<in> set (projects s). a_project_id args \<noteq> Str (p_id p)"
  shows "handleCreateTask uuid now args s = (s, Sent (Status404 ''Project not found''))"
proof -
  have "find (\<lambda>p. strict_eq (Str (p_id p)) (a_project_id args)) (projects s) = None"
    using assms by (auto simp: find_None_iff)
  then show ?thesis by (simp add: handleCreateTask_def)
qed

theorem create_task_unknown_project_witness:
  "a_project_id (no_args\<lparr>a_project_id := Str ''p9'', a_title := Str ''Write copy''\<rparr>)
     \<notin> Str ` p_id ` set (projects sample_store)
   \<and> handleCreateTask ''t4'' ''2025-01-05T00:00:00.000Z''
       (no_args\<lparr>a_project_id := Str ''p9'', a_title := Str ''Write copy''\<rparr>) sample_store
     = (sample_store, Sent (Status404 ''Project not found''))
   \<and> length (tasks sample_store) = 3"
  using create_task_unknown_project [of sample_store
      "no_args\<lparr>a_project_id := Str ''p9'', a_title := Str ''Write copy''\<rparr>"
      "''t4''" "''2025-01-05T00:00:00.000Z''"]
  by (simp add: sample_store_def sample_project_def no_args_def)

section \<open>Creating without a name or a title\<close>

text \<open>
  C2, as the specification states it, fails: no handler checks \<^verbatim>\<open>name\<close> or
  \<^verbatim>\<open>title\<close>. A \<^verbatim>\<open>create_project\<close> request without a name, or with the empty name,
  changes the project collection, and a \<^verbatim>\<open>create_task\<close> request for an existing
  project without a title, or with the empty title, changes the task collection.
\<close>

theorem create_without_name_or_title_counterexample:
  "projects (fst (handleCreateProject ''p3'' ''2025-01-05T00:00:00.000Z'' no_args sample_store))
     \<noteq> projects sample_store
   \<and> projects (fst (handleCreateProject ''p3'' ''2025-01-05T00:00:00.000Z''
         (no_args\<lparr>a_name := Str []\<rparr>) sample_store))
     \<noteq> projects sample_store
   \<and> tasks (fst (handleCreateTask ''t4'' ''2025-01-05T00:00:00.000Z''
         (no_args\<lparr>a_project_id := Str ''p1''\<rparr>) sample_store))
     \<noteq> tasks sample_store
   \<and> tasks (fst (handleCreateTask ''t4'' ''2025-01-05T00:00:00.000Z''
         (no_args\<lparr>a_project_id := Str ''p1'', a_title := Str []\<rparr>) sample_store))
     \<noteq> tasks sample_store"
  by (simp add: handleCreateProject_def handleCreateTask_def sample_store_def
      sample_project_def no_args_def)

text \<open>
  C2, amended. A \<^verbatim>\<open>create_project\<close> request whose name is missing or empty appends
  one project, with the generated id and with that name (absent stays
  \<^verbatim>\<open>undefined\<close>), and leaves the tasks alone. A \<^verbatim>\<open>create_task\<close> request whose
  \<^verbatim>\<open>project_id\<close> is the id of a stored project and whose title is missing or empty
  appends one task, with the generated id and with that title, and leaves the
  projects alone.
\<close>

theorem create_stores_missing_name_or_title:
  "(a_name args = Undefined \<or> a_name args = Str [] \<longrightarrow>
      (\<exists>newProject.
          projects (fst (handleCreateProject uuid now args s)) = projects s @ [newProject]
          \<and> p_id newProject = uuid \<and> p_name newProject = a_name args)
      \<and> tasks (fst (handleCreateProject uuid now args s)) = tasks s)
   \<and> ((\<exists>p \<in> set (projects s). a_project_id targs = Str (p_id p))
        \<and> (a_title targs = Undefined \<or> a_title targs = Str []) \<longrightarrow>
      map t_id (tasks (fst (handleCreateTask uuid now targs s))) = map t_id (tasks s) @ [uuid]
      \<and> map t_title (tasks (fst (handleCreateTask uuid now targs s)))
          = map t_title (tasks s) @ [a_title targs]
      \<and> projects (fst (handleCreateTask uuid now targs s)) = projects s)"
proof (intro conjI impI)
  show "\<exists>newProject.
          projects (fst (handleCreateProject uuid now args s)) = projects s @ [newProject]
          \<and> p_id newProject = uuid \<and> p_name newProject = a_name args"
    by (simp add: handleCreateProject_def Let_def)
  show "tasks (fst (handleCreateProject uuid now args s)) = tasks s"
    by (simp add: handleCreateProject_def Let_def)
next
  assume h: "(\<exists>p \<in> set (projects s). a_project_id targs = Str (p_id p))
      \<and> (a_title targs = Undefined \<or> a_title targs = Str [])"
  then obtain project where
    f: "find (\<lambda>p. strict_eq (Str (p_id p)) (a_project_id targs)) (projects s) = Some project"
    by (cases "find (\<lambda>p. strict_eq (Str (p_id p)) (a_project_id targs)) (projects s)")
      (auto simp: find_None_iff)
  show "map t_id (tasks (fst (handleCreateTask uuid now targs s))) = map t_id (tasks s) @ [uuid]"
    using f by (simp add: handleCreateTask_def Let_def map_modify_first)
  show "map t_title (tasks (fst (handleCreateTask uuid now targs s)))
          = map t_title (tasks s) @ [a_title targs]"
    using f by (simp add: handleCreateTask_def Let_def map_modify_first)
  show "projects (fst (handleCreateTask uuid now targs s)) = projects s"
    using f by (simp add: handleCreateTask_def Let_def)
qed

theorem create_stores_missing_name_or_title_witness:
  "a_name no_args = Undefined
   \<and> map p_name (projects (fst (handleCreateProject ''x7'' ''2025-01-05T00:00:00.000Z''
         no_args sample_store)))
       = [Str ''Project p1'', Str ''Project p2'', Undefined]
   \<and> a_project_id (no_args\<lparr>a_project_id := Str ''p1'', a_title := Str []\<rparr>)
       \<in> Str ` p_id ` set (projects sample_store)
   \<and> a_title (no_args\<lparr>a_project_id := Str ''p1'', a_title := Str []\<rparr>) = Str []
   \<and> map t_title (tasks (fst (handleCreateTask ''x7'' ''2025-01-05T00:00:00.000Z''
         (no_args\<lparr>a_project_id := Str ''p1'', a_title := Str []\<rparr>) sample_store)))
       = [Str ''Task t1'', Str ''Task t2'', Str ''Task t3'', Str []]"
  using create_stores_missing_name_or_title [where args = no_args and uuid = "''x7''"
      and now = "''2025-01-05T00:00:00.000Z''" and s = sample_store
      and targs = "no_args\<lparr>a_project_id := Str ''p1'', a_title := Str []\<rparr>"]
  by (simp add: sample_store_def sample_project_def sample_task_def no_args_def
      handleCreateProject_def Let_def)

section \<open>Subtask lists, and a cascading delete\<close>

lemma children_links:
  "children (links ts) i = t_id ` {t \<in> set ts. t_parent_task_id t = Str i}"
proof -
  have "{x \<in> set (links ts). fst (snd x) = Str i}
      = (\<lambda>t. (t_id t, t_parent_task_id t, t_subtasks t)) ` {t \<in> set ts. t_parent_task_id t = Str i}"
    by (auto simp: links_def)
  then show ?thesis
    unfolding children_def by (simp add: image_image)
qed

lemma linked_subtasks_consistent:
  assumes "linked (links (tasks s))"
  shows "subtasks_consistent s"
proof -
  have "set (t_subtasks p) = children (links (tasks s)) (t_id p)" if "p \<in> set (tasks s)" for p
  proof -
    from that have "(t_id p, t_parent_task_id p, t_subtasks p) \<in> set (links (tasks s))"
      by (simp add: links_def image_iff) blast
    with assms show ?thesis unfolding linked_def by fastforce
  qed
  then show ?thesis
    by (simp add: subtasks_consistent_def list_all_iff children_links) 
qed

lemma children_append: "children (L @ M) i = children L i \<union> children M i"
  by (auto simp: children_def)

lemma children_single: "children [x] i = (if fst (snd x) = Str i then {fst x} else {})"
  by (auto simp: children_def)

lemma children_map:
  assumes "\<And>x. fst (h x) = fst x" and "\<And>x. fst (snd (h x)) = fst (snd x)"
  shows "children (map h L) i = children L i"
proof -
  have "{x \<in> set (map h L). fst (snd x) = Str i} = h ` {x \<in> set L. fst (snd x) = Str i}"
    using assms(2) by auto
  then show ?thesis
    unfolding children_def by (simp add: image_image assms(1))
qed

lemma children_filter:
  "children (filter (\<lambda>x. fst x \<noteq> d) L) i = children L i - {d}"
  by (auto simp: children_def)

lemma linked_add:
  assumes l: "linked L" and u: "u \<notin> fst ` set L" and nu: "children L u = {}"
    and par: "par \<noteq> Str u" "truthy par \<or> par = Null"
  shows "linked (map (add_child par u) L @ [(u, par, [])])"
proof -
  have ids: "map fst (map (add_child par u) L) = map fst L"
    by (simp add: add_child_def)
  have ch: "children (map (add_child par u) L @ [(u, par, [])]) i
      = children L i \<union> (if par = Str i then {u} else {})" for i
    by (simp add: children_append children_single children_map add_child_def)
  show ?thesis
    unfolding linked_def
  proof (intro conjI ballI)
    show "distinct (map fst (map (add_child par u) L @ [(u, par, [])]))"
      using l u by (simp add: ids linked_def del: map_map)
    show "truthy (fst (snd x)) \<or> fst (snd x) = Null"
      if "x \<in> set (map (add_child par u) L @ [(u, par, [])])" for x
      using that l par by (auto simp: linked_def add_child_def)
    show "set (snd (snd x)) = children (map (add_child par u) L @ [(u, par, [])]) (fst x)"
      if "x \<in> set (map (add_child par u) L @ [(u, par, [])])" for x
    proof -
      from that consider y where "y \<in> set L" "x = add_child par u y" | "x = (u, par, [])"
        by auto
      then show ?thesis
      proof cases
        case 1
        with l have sy: "set (snd (snd y)) = children L (fst y)" by (simp add: linked_def)
        from 1 have fx: "fst x = fst y"
          and sx: "snd (snd x) = (if par = Str (fst y) then snd (snd y) @ [u] else snd (snd y))"
          by (simp_all add: add_child_def)
        show ?thesis unfolding fx ch sx using sy by simp
      next
        case 2
        with nu par show ?thesis by (simp add: ch)
      qed
    qed
  qed
qed

lemma linked_remove:
  assumes l: "linked L" and d: "x \<in> set L"
  shows "linked (map (drop_child (fst (snd x)) (fst x)) (filter (\<lambda>y. fst y \<noteq> fst x) L))"
proof -
  let ?d = "fst x" and ?par = "fst (snd x)"
  let ?L' = "map (drop_child ?par ?d) (filter (\<lambda>y. fst y \<noteq> ?d) L)"
  have ch: "children ?L' i = children L i - {?d}" for i
    by (simp add: children_map children_filter drop_child_def)
  have only: "?d \<notin> children L i" if "?par \<noteq> Str i" for i
  proof
    assume "?d \<in> children L i"
    then obtain y where y: "y \<in> set L" "fst y = ?d" "fst (snd y) = Str i"
      by (auto simp: children_def)
    from l have "inj_on fst (set L)" by (simp add: linked_def distinct_map)
    with y d have "y = x" by (auto dest: inj_onD)
    with y that show False by simp
  qed
  show ?thesis
    unfolding linked_def
  proof (intro conjI ballI)
    show "distinct (map fst ?L')"
    proof -
      have "map fst ?L' = map fst (filter (\<lambda>y. fst y \<noteq> ?d) L)"
        by (simp add: drop_child_def)
      with l show ?thesis by (simp add: linked_def distinct_map_filter del: map_map)
    qed
    show "truthy (fst (snd y)) \<or> fst (snd y) = Null" if "y \<in> set ?L'" for y
      using that l by (auto simp: linked_def drop_child_def)
    show "set (snd (snd y)) = children ?L' (fst y)" if "y \<in> set ?L'" for y
    proof -
      from that obtain z where z: "z \<in> set L" "fst z \<noteq> ?d" "y = drop_child ?par ?d z"
        by auto
      with l have s: "set (snd (snd z)) = children L (fst z)" by (simp add: linked_def)
      from z have fy: "fst y = fst z"
        and sy: "snd (snd y) = (if ?par = Str (fst z) then filter (\<lambda>i. i \<noteq> ?d) (snd (snd z))
                                else snd (snd z))"
        by (simp_all add: drop_child_def)
      show ?thesis
      proof (cases "?par = Str (fst z)")
        case True
        show ?thesis unfolding fy ch sy using True s by auto
      next
        case False
        from only [OF False] show ?thesis unfolding fy ch sy using False s by auto
      qed
    qed
  qed
qed


lemma modify_first_by_key:
  "distinct (map g xs) \<Longrightarrow>
     modify_first (\<lambda>x. k = g x) f xs = map (\<lambda>x. if k = g x then f x else x) xs"
proof (induction xs)
  case Nil
  then show ?case by simp
next
  case (Cons a xs)
  show ?case
  proof (cases "k = g a")
    case True
    from Cons.prems have "g a \<notin> g ` set xs" by simp
    with True have "\<forall>x \<in> set xs. k \<noteq> g x" by (metis imageI)
    then have "map (\<lambda>x. if k = g x then f x else x) xs = xs"
      by (intro map_idI) simp
    with True show ?thesis by simp
  next
    case False
    with Cons show ?thesis by simp
  qed
qed

lemma splice1_by_key:
  "distinct (map g xs) \<Longrightarrow> i < length xs \<Longrightarrow>
     splice1 i xs = filter (\<lambda>x. g x \<noteq> g (xs ! i)) xs"
proof (induction xs arbitrary: i)
  case Nil
  then show ?case by simp
next
  case (Cons a xs)
  from Cons.prems have a: "g a \<notin> g ` set xs" by simp
  show ?case
  proof (cases i)
    case 0
    from a have "\<forall>x \<in> set xs. g x \<noteq> g a" by (metis imageI)
    then have "filter (\<lambda>x. g x \<noteq> g a) xs = xs" by (simp add: filter_id_conv)
    with 0 show ?thesis by (simp add: splice1_def)
  next
    case (Suc j)
    with Cons.prems have j: "j < length xs" and d: "distinct (map g xs)" by simp_all
    from j have "xs ! j \<in> set xs" by simp
    with a have "g a \<noteq> g (xs ! j)" by (metis imageI)
    with Cons.IH [OF d j] Suc show ?thesis by (simp add: splice1_def)
  qed
qed

lemma distinct_Str_ids: "distinct (map (\<lambda>t. Str (t_id t)) ts) \<longleftrightarrow> distinct (map t_id ts)"
  by (simp add: distinct_map inj_on_def)

lemma map_fst_links: "map fst (links ts) = map t_id ts"
  by (simp add: links_def)

lemma links_append: "links (xs @ ys) = links xs @ links ys"
  by (simp add: links_def)

lemma links_add_child:
  "links (map (\<lambda>t. if par = Str (t_id t) then t\<lparr>t_subtasks := t_subtasks t @ [u]\<rparr> else t) ts)
     = map (add_child par u) (links ts)"
  by (induction ts) (simp_all add: links_def add_child_def)

lemma links_drop_child:
  "links (map (\<lambda>t. if par = Str (t_id t)
                    then t\<lparr>t_subtasks := filter (\<lambda>i. i \<noteq> d) (t_subtasks t)\<rparr> else t) ts)
     = map (drop_child par d) (links ts)"
  by (induction ts) (simp_all add: links_def drop_child_def)

lemma links_filter_id:
  "links (filter (\<lambda>t. t_id t \<noteq> d) ts) = filter (\<lambda>x. fst x \<noteq> d) (links ts)"
  by (induction ts) (simp_all add: links_def)

lemma linked_create_task:
  assumes l: "linked (links (tasks s))" and f: "fresh_task_id u args s"
  shows "linked (links (tasks (fst (handleCreateTask u now args s))))"
proof (cases "find (\<lambda>p. strict_eq (Str (p_id p)) (a_project_id args)) (projects s)")
  case None
  with l show ?thesis by (simp add: handleCreateTask_def)
next
  case (Some project)
  let ?par = "js_or (a_parent_task_id args) Null"
  let ?new = "\<lparr>t_id = u, t_title = a_title args,
      t_description = js_or (a_description args) (Str []),
      t_project_id = a_project_id args, t_project_name = p_name project,
      t_status = js_or (a_status args) (Str ''todo''),
      t_priority = js_or (a_priority args) (Str ''medium''),
      t_due_date = js_or (a_due_date args) Null,
      t_assignee = js_or (a_assignee args) Null,
      t_tags = js_or (a_tags args) (Arr []),
      t_parent_task_id = ?par, t_created_at = now, t_updated_at = now, t_subtasks = []\<rparr>"
  let ?h = "\<lambda>t. if ?par = Str (t_id t) then t\<lparr>t_subtasks := t_subtasks t @ [u]\<rparr> else t"
  from l have d: "distinct (map t_id (tasks s))"
    by (simp add: linked_def map_fst_links)
  from f have u: "u \<notin> t_id ` set (tasks s)" and pu: "a_parent_task_id args \<noteq> Str u"
    and nu: "\<forall>t \<in> set (tasks s). t_parent_task_id t \<noteq> Str u"
    by (simp_all add: fresh_task_id_def)
  from pu have par_u: "?par \<noteq> Str u" by (simp add: js_or_def)
  have par_ok: "truthy ?par \<or> ?par = Null" by (simp add: js_or_def)
  have ts': "tasks (fst (handleCreateTask u now args s)) = map ?h (tasks s) @ [?new]"
  proof (cases "truthy (a_parent_task_id args)")
    case True
    then have p: "?par = a_parent_task_id args" by (simp add: js_or_def)
    from d u have "distinct (map (\<lambda>t. Str (t_id t)) (tasks s @ [?new]))"
      by (simp add: distinct_map inj_on_def image_iff)
    from modify_first_by_key [OF this, of "a_parent_task_id args"
        "\<lambda>parent. parent\<lparr>t_subtasks := t_subtasks parent @ [u]\<rparr>"] pu
    have "modify_first (\<lambda>t. a_parent_task_id args = Str (t_id t))
        (\<lambda>parent. parent\<lparr>t_subtasks := t_subtasks parent @ [u]\<rparr>) (tasks s @ [?new])
      = map ?h (tasks s) @ [?new]"
      by (simp add: p)
    with Some True show ?thesis by (simp add: handleCreateTask_def p)
  next
    case False
    then have p: "?par = Null" by (simp add: js_or_def)
    have "map ?h (tasks s) = tasks s" by (simp add: p)
    with Some False show ?thesis by (simp add: handleCreateTask_def p)
  qed
  have "children (links (tasks s)) u = {}"
    using nu by (auto simp: children_links)
  from linked_add [OF l _ this par_u par_ok] u
  have "linked (map (add_child ?par u) (links (tasks s)) @ [(u, ?par, [])])"
    by (simp add: links_def image_image)
  moreover have "links (map ?h (tasks s) @ [?new])
      = map (add_child ?par u) (links (tasks s)) @ [(u, ?par, [])]"
    by (simp only: links_append links_add_child) (simp add: links_def)
  ultimately show ?thesis
    by (simp only: ts')
qed


lemma linked_delete_task:
  assumes l: "linked (links (tasks s))"
  shows "linked (links (tasks (fst (handleDeleteTask args s))))"
proof (cases "findIndex (\<lambda>t. strict_eq (Str (t_id t)) (a_id args)) (tasks s)")
  case None
  with l show ?thesis by (simp add: handleDeleteTask_def)
next
  case (Some i)
  let ?d = "tasks s ! i"
  let ?rest = "filter (\<lambda>t. t_id t \<noteq> t_id ?d) (tasks s)"
  let ?h = "\<lambda>t. if t_parent_task_id ?d = Str (t_id t)
                 then t\<lparr>t_subtasks := filter (\<lambda>k. k \<noteq> t_id ?d) (t_subtasks t)\<rparr> else t"
  from findIndex_Some [OF Some] have i: "i < length (tasks s)" by simp
  then have din: "?d \<in> set (tasks s)" by simp
  from l have d: "distinct (map t_id (tasks s))"
    by (simp add: linked_def map_fst_links)
  have sp: "splice1 i (tasks s) = ?rest"
    by (rule splice1_by_key [OF d i])
  from din l have par: "truthy (t_parent_task_id ?d) \<or> t_parent_task_id ?d = Null"
    unfolding linked_def links_def by fastforce
  have ts': "tasks (fst (handleDeleteTask args s)) = map ?h ?rest"
  proof (cases "truthy (t_parent_task_id ?d)")
    case True
    from d have "distinct (map (\<lambda>t. Str (t_id t)) ?rest)"
      by (simp add: distinct_Str_ids distinct_map_filter)
    from modify_first_by_key [OF this, of "t_parent_task_id ?d"]
    have "modify_first (\<lambda>t. t_parent_task_id ?d = Str (t_id t))
        (\<lambda>parent. parent\<lparr>t_subtasks := filter (\<lambda>k. k \<noteq> t_id ?d) (t_subtasks parent)\<rparr>) ?rest
      = map ?h ?rest"
      by simp
    with Some True sp show ?thesis by (simp add: handleDeleteTask_def Let_def)
  next
    case False
    with par have "t_parent_task_id ?d = Null" by simp
    then have "map ?h ?rest = ?rest" by simp
    with Some False sp show ?thesis by (simp add: handleDeleteTask_def Let_def)
  qed
  from din have "(t_id ?d, t_parent_task_id ?d, t_subtasks ?d) \<in> set (links (tasks s))"
    unfolding links_def by (simp add: image_iff) blast
  from linked_remove [OF l this]
  have "linked (map (drop_child (t_parent_task_id ?d) (t_id ?d))
      (filter (\<lambda>y. fst y \<noteq> t_id ?d) (links (tasks s))))"
    by simp
  moreover have "links (map ?h ?rest)
      = map (drop_child (t_parent_task_id ?d) (t_id ?d))
          (filter (\<lambda>y. fst y \<noteq> t_id ?d) (links (tasks s)))"
    by (simp only: links_drop_child links_filter_id)
  ultimately show ?thesis by (simp only: ts')
qed

lemma links_update_task: "links (tasks (fst (handleUpdateTask now args s))) = links (tasks s)"
proof (cases "findIndex (\<lambda>t. strict_eq (Str (t_id t)) (a_id args)) (tasks s)")
  case None
  then show ?thesis by (simp add: handleUpdateTask_def)
next
  case (Some i)
  then have "i < length (tasks s)" by (simp add: findIndex_Some)
  then show ?thesis
    by (simp add: handleUpdateTask_found [OF Some] links_def map_update list_update_same_conv)
qed

lemma links_move_task: "links (tasks (fst (handleMoveTask now args s))) = links (tasks s)"
  by (simp add: handleMoveTask_def links_def map_modify_first split: option.split)

lemma tasks_delete_project_keep:
  "\<not> truthy (a_delete_tasks args) \<Longrightarrow> tasks (fst (handleDeleteProject args s)) = tasks s"
  by (simp add: handleDeleteProject_def Let_def split: option.split)

lemma tasks_other_handlers:
  "tasks (fst (handleListProjects parse args s)) = tasks s"
  "tasks (fst (handleListTasks parse args s)) = tasks s"
  "tasks (fst (handleGetProjectSummary parse args s)) = tasks s"
  "tasks (fst (handleCreateProject u now args s)) = tasks s"
  "tasks (fst (handleUpdateProject now args s)) = tasks s"
  by (simp_all add: handleListProjects_eq handleListTasks_eq handleGetProjectSummary_def
      handleCreateProject_def handleUpdateProject_def Let_def split: option.split)

lemma linked_tool_call:
  assumes "linked (links (tasks s))" and "keeps_links e toolName args s"
  shows "linked (links (tasks (fst (tool_call parse e toolName args s))))"
  using assms
  by (simp add: tool_call_def keeps_links_def tasks_other_handlers tasks_delete_project_keep
      linked_create_task linked_delete_task links_update_task links_move_task)

lemma linked_run:
  "linked (links (tasks s)) \<Longrightarrow> requests_keep_links parse rs s
     \<Longrightarrow> linked (links (tasks (run parse rs s)))"
proof (induction rs arbitrary: s)
  case Nil
  then show ?case by simp
next
  case (Cons r rs)
  obtain e toolName args where r: "r = (e, toolName, args)" by (cases r)
  with Cons.prems have k: "keeps_links e toolName args s"
    and rest: "requests_keep_links parse rs
        (fst (tool_call parse e toolName args s))"
    by simp_all
  from linked_tool_call [OF Cons.prems(1) k]
  have "linked (links (tasks (fst (tool_call parse e toolName args s))))" .
  from Cons.IH [OF this rest] r show ?case by simp
qed

lemma subtasks_consistent_run:
  assumes "requests_keep_links parse rs (empty_store started)"
  shows "subtasks_consistent (run parse rs (empty_store started))"
proof -
  have "linked (links (tasks (empty_store started)))"
    by (simp add: empty_store_def links_def linked_def)
  from linked_run [OF this assms] show ?thesis
    by (rule linked_subtasks_consistent)
qed

text \<open>
  C3, with the failing input. In the store after any sequence of requests from the
  empty store, none of them a \<^verbatim>\<open>delete_project\<close> that also deletes the tasks and
  every created task with a fresh id, the subtask list of every task holds the ids of
  the stored tasks that name it as parent. A cascading \<^verbatim>\<open>delete_project\<close> breaks
  this: after two projects, a task \<open>t1\<close> in the first and its subtask \<open>t2\<close> in the
  second, deleting the second project with its tasks removes \<open>t2\<close> and leaves the list
  of \<open>t1\<close> as it was, so \<open>t1\<close> lists a task that no longer exists.
  \<^verbatim>\<open>delete_task\<close> on \<open>t2\<close> does remove the id from that list.
\<close>

theorem subtasks_consistent_until_cascade:
  "(requests_keep_links parse rs (empty_store started) \<longrightarrow>
      subtasks_consistent (run parse rs (empty_store started)))
   \<and> map (\<lambda>t. (t_id t, t_subtasks t))
        (tasks (run sample_parse cascade_requests
           (empty_store ''2025-01-01T00:00:00.000Z'')))
       = [(''t1'', [''t2''])]
   \<and> \<not> subtasks_consistent
         (run sample_parse cascade_requests
            (empty_store ''2025-01-01T00:00:00.000Z''))
   \<and> map (\<lambda>t. (t_id t, t_subtasks t))
        (tasks (fst (handleDeleteTask (no_args\<lparr>a_id := Str ''t2''\<rparr>)
           (run sample_parse linked_requests
              (empty_store ''2025-01-01T00:00:00.000Z'')))))
       = [(''t1'', [])]"
proof (intro conjI impI)
  assume "requests_keep_links parse rs (empty_store started)"
  then show "subtasks_consistent (run parse rs (empty_store started))"
    by (rule subtasks_consistent_run)
next
  show "map (\<lambda>t. (t_id t, t_subtasks t))
        (tasks (run sample_parse cascade_requests
           (empty_store ''2025-01-01T00:00:00.000Z'')))
       = [(''t1'', [''t2''])]"
    by code_simp
  show "\<not> subtasks_consistent
         (run sample_parse cascade_requests
            (empty_store ''2025-01-01T00:00:00.000Z''))"
    by code_simp
  show "map (\<lambda>t. (t_id t, t_subtasks t))
        (tasks (fst (handleDeleteTask (no_args\<lparr>a_id := Str ''t2''\<rparr>)
           (run sample_parse linked_requests
              (empty_store ''2025-01-01T00:00:00.000Z'')))))
       = [(''t1'', [])]"
    by code_simp
qed

theorem subtasks_consistent_until_cascade_witness:
  "requests_keep_links sample_parse linked_requests
     (empty_store ''2025-01-01T00:00:00.000Z'')
   \<and> subtasks_consistent
       (run sample_parse linked_requests
          (empty_store ''2025-01-01T00:00:00.000Z''))
   \<and> map (\<lambda>t. (t_id t, t_subtasks t))
        (tasks (run sample_parse linked_requests
           (empty_store ''2025-01-01T00:00:00.000Z'')))
       = [(''t1'', [''t2'']), (''t2'', [])]
   \<and> \<not> requests_keep_links sample_parse cascade_requests
         (empty_store ''2025-01-01T00:00:00.000Z'')"
proof -
  have k: "requests_keep_links sample_parse linked_requests
     (empty_store ''2025-01-01T00:00:00.000Z'')"
    by code_simp
  have "subtasks_consistent
       (run sample_parse linked_requests
          (empty_store ''2025-01-01T00:00:00.000Z''))"
    using subtasks_consistent_until_cascade [where parse = sample_parse
        and rs = linked_requests
        and started = "''2025-01-01T00:00:00.000Z''"] k
    by blast
  moreover have "map (\<lambda>t. (t_id t, t_subtasks t))
        (tasks (run sample_parse linked_requests
           (empty_store ''2025-01-01T00:00:00.000Z'')))
       = [(''t1'', [''t2'']), (''t2'', [])]"
    by code_simp
  moreover have "\<not> requests_keep_links sample_parse cascade_requests
         (empty_store ''2025-01-01T00:00:00.000Z'')"
    by code_simp
  ultimately show ?thesis using k by simp
qed

section \<open>The stable sort under a consistent comparator\<close>














section \<open>The order of the listed projects and tasks\<close>










section \<open>Updates touch only the fields of the request\<close>

text \<open>
  C5. When the id of an \<^verbatim>\<open>update_task\<close> request resolves to the task at index
  \<open>i\<close>, the store afterwards differs from the store before in that one task only;
  the task keeps its id, project, cached project name, parent, creation time and
  subtasks, and it keeps every field that the request does not carry. When the
  request carries none of the seven fields, the task is the old one with a new
  \<^verbatim>\<open>updated_at\<close>. The same holds of \<^verbatim>\<open>update_project\<close> and the project at index
  \<open>k\<close>.
\<close>

theorem update_keeps_absent_fields:
  "(findIndex (\<lambda>t. strict_eq (Str (t_id t)) (a_id targs)) (tasks s) = Some i \<longrightarrow>
      (\<exists>t'. fst (handleUpdateTask now targs s) = s\<lparr>tasks := (tasks s)[i := t']\<rparr>
         \<and> t_id t' = t_id (tasks s ! i)
         \<and> t_project_id t' = t_project_id (tasks s ! i)
         \<and> t_project_name t' = t_project_name (tasks s ! i)
         \<and> t_parent_task_id t' = t_parent_task_id (tasks s ! i)
         \<and> t_created_at t' = t_created_at (tasks s ! i)
         \<and> t_subtasks t' = t_subtasks (tasks s ! i)
         \<and> (a_title targs = Undefined \<longrightarrow> t_title t' = t_title (tasks s ! i))
         \<and> (a_description targs = Undefined \<longrightarrow> t_description t' = t_description (tasks s ! i))
         \<and> (a_status targs = Undefined \<longrightarrow> t_status t' = t_status (tasks s ! i))
         \<and> (a_priority targs = Undefined \<longrightarrow> t_priority t' = t_priority (tasks s ! i))
         \<and> (a_due_date targs = Undefined \<longrightarrow> t_due_date t' = t_due_date (tasks s ! i))
         \<and> (a_assignee targs = Undefined \<longrightarrow> t_assignee t' = t_assignee (tasks s ! i))
         \<and> (a_tags targs = Undefined \<longrightarrow> t_tags t' = t_tags (tasks s ! i))
         \<and> (a_title targs = Undefined \<and> a_description targs = Undefined
              \<and> a_status targs = Undefined \<and> a_priority targs = Undefined
              \<and> a_due_date targs = Undefined \<and> a_assignee targs = Undefined
              \<and> a_tags targs = Undefined \<longrightarrow>
            t' = (tasks s ! i)\<lparr>t_updated_at := now\<rparr>)))
   \<and> (findIndex (\<lambda>p. strict_eq (Str (p_id p)) (a_id pargs)) (projects s) = Some k \<longrightarrow>
      (\<exists>p'. fst (handleUpdateProject now pargs s) = s\<lparr>projects := (projects s)[k := p']\<rparr>
         \<and> p_id p' = p_id (projects s ! k)
         \<and> p_created_at p' = p_created_at (projects s ! k)
         \<and> (a_name pargs = Undefined \<longrightarrow> p_name p' = p_name (projects s ! k))
         \<and> (a_description pargs = Undefined \<longrightarrow>
              p_description p' = p_description (projects s ! k))
         \<and> (a_status pargs = Undefined \<longrightarrow> p_status p' = p_status (projects s ! k))
         \<and> (a_priority pargs = Undefined \<longrightarrow> p_priority p' = p_priority (projects s ! k))
         \<and> (a_due_date pargs = Undefined \<longrightarrow> p_due_date p' = p_due_date (projects s ! k))
         \<and> (a_tags pargs = Undefined \<longrightarrow> p_tags p' = p_tags (projects s ! k))
         \<and> (a_name pargs = Undefined \<and> a_description pargs = Undefined
              \<and> a_status pargs = Undefined \<and> a_priority pargs = Undefined
              \<and> a_due_date pargs = Undefined \<and> a_tags pargs = Undefined \<longrightarrow>
            p' = (projects s ! k)\<lparr>p_updated_at := now\<rparr>)))"
proof (intro conjI impI)
  assume "findIndex (\<lambda>t. strict_eq (Str (t_id t)) (a_id targs)) (tasks s) = Some i"
  from handleUpdateTask_found [OF this, of now]
  obtain t' where eq: "fst (handleUpdateTask now targs s) = s\<lparr>tasks := (tasks s)[i := t']\<rparr>"
    and t': "t' = (tasks s ! i)
        \<lparr>t_title := (if a_title targs \<noteq> Undefined then a_title targs
                     else t_title (tasks s ! i)),
         t_description := (if a_description targs \<noteq> Undefined then a_description targs
                           else t_description (tasks s ! i)),
         t_status := (if a_status targs \<noteq> Undefined then a_status targs
                      else t_status (tasks s ! i)),
         t_priority := (if a_priority targs \<noteq> Undefined then a_priority targs
                        else t_priority (tasks s ! i)),
         t_due_date := (if a_due_date targs \<noteq> Undefined then a_due_date targs
                        else t_due_date (tasks s ! i)),
         t_assignee := (if a_assignee targs \<noteq> Undefined then a_assignee targs
                        else t_assignee (tasks s ! i)),
         t_tags := (if a_tags targs \<noteq> Undefined then a_tags targs else t_tags (tasks s ! i)),
         t_updated_at := now\<rparr>"
    by simp
  show "\<exists>t'. fst (handleUpdateTask now targs s) = s\<lparr>tasks := (tasks s)[i := t']\<rparr>
         \<and> t_id t' = t_id (tasks s ! i)
         \<and> t_project_id t' = t_project_id (tasks s ! i)
         \<and> t_project_name t' = t_project_name (tasks s ! i)
         \<and> t_parent_task_id t' = t_parent_task_id (tasks s ! i)
         \<and> t_created_at t' = t_created_at (tasks s ! i)
         \<and> t_subtasks t' = t_subtasks (tasks s ! i)
         \<and> (a_title targs = Undefined \<longrightarrow> t_title t' = t_title (tasks s ! i))
         \<and> (a_description targs = Undefined \<longrightarrow> t_description t' = t_description (tasks s ! i))
         \<and> (a_status targs = Undefined \<longrightarrow> t_status t' = t_status (tasks s ! i))
         \<and> (a_priority targs = Undefined \<longrightarrow> t_priority t' = t_priority (tasks s ! i))
         \<and> (a_due_date targs = Undefined \<longrightarrow> t_due_date t' = t_due_date (tasks s ! i))
         \<and> (a_assignee targs = Undefined \<longrightarrow> t_assignee t' = t_assignee (tasks s ! i))
         \<and> (a_tags targs = Undefined \<longrightarrow> t_tags t' = t_tags (tasks s ! i))
         \<and> (a_title targs = Undefined \<and> a_description targs = Undefined
              \<and> a_status targs = Undefined \<and> a_priority targs = Undefined
              \<and> a_due_date targs = Undefined \<and> a_assignee targs = Undefined
              \<and> a_tags targs = Undefined \<longrightarrow>
            t' = (tasks s ! i)\<lparr>t_updated_at := now\<rparr>)"
    by (rule exI [of _ t']) (simp add: eq t')
next
  assume "findIndex (\<lambda>p. strict_eq (Str (p_id p)) (a_id pargs)) (projects s) = Some k"
  from handleUpdateProject_found [OF this, of now]
  obtain p' where eq:
      "fst (handleUpdateProject now pargs s) = s\<lparr>projects := (projects s)[k := p']\<rparr>"
    and p': "p' = (projects s ! k)
        \<lparr>p_name := (if a_name pargs \<noteq> Undefined then a_name pargs
                    else p_name (projects s ! k)),
         p_description := (if a_description pargs \<noteq> Undefined then a_description pargs
                           else p_description (projects s ! k)),
         p_status := (if a_status pargs \<noteq> Undefined then a_status pargs
                      else p_status (projects s ! k)),
         p_priority := (if a_priority pargs \<noteq> Undefined then a_priority pargs
                        else p_priority (projects s ! k)),
         p_due_date := (if a_due_date pargs \<noteq> Undefined then a_due_date pargs
                        else p_due_date (projects s ! k)),
         p_tags := (if a_tags pargs \<noteq> Undefined then a_tags pargs
                    else p_tags (projects s ! k)),
         p_updated_at := now\<rparr>"
    by simp
  show "\<exists>p'. fst (handleUpdateProject now pargs s) = s\<lparr>projects := (projects s)[k := p']\<rparr>
         \<and> p_id p' = p_id (projects s ! k)
         \<and> p_created_at p' = p_created_at (projects s ! k)
         \<and> (a_name pargs = Undefined \<longrightarrow> p_name p' = p_name (projects s ! k))
         \<and> (a_description pargs = Undefined \<longrightarrow>
              p_description p' = p_description (projects s ! k))
         \<and> (a_status pargs = Undefined \<longrightarrow> p_status p' = p_status (projects s ! k))
         \<and> (a_priority pargs = Undefined \<longrightarrow> p_priority p' = p_priority (projects s ! k))
         \<and> (a_due_date pargs = Undefined \<longrightarrow> p_due_date p' = p_due_date (projects s ! k))
         \<and> (a_tags pargs = Undefined \<longrightarrow> p_tags p' = p_tags (projects s ! k))
         \<and> (a_name pargs = Undefined \<and> a_description pargs = Undefined
              \<and> a_status pargs = Undefined \<and> a_priority pargs = Undefined
              \<and> a_due_date pargs = Undefined \<and> a_tags pargs = Undefined \<longrightarrow>
            p' = (projects s ! k)\<lparr>p_updated_at := now\<rparr>)"
    by (rule exI [of _ p']) (simp add: eq p')
qed

theorem update_keeps_absent_fields_witness:
  "findIndex (\<lambda>t. strict_eq (Str (t_id t)) (a_id (no_args\<lparr>a_id := Str ''t2''\<rparr>)))
      (tasks sample_store) = Some 1
   \<and> tasks (fst (handleUpdateTask ''2025-02-01T00:00:00.000Z''
         (no_args\<lparr>a_id := Str ''t2''\<rparr>) sample_store))
       = [sample_task ''t1'' ''p1'' (Str ''todo'') ''2025-01-02T00:00:00.000Z'',
          sample_task ''t2'' ''p2'' (Str ''done'') ''2025-02-01T00:00:00.000Z'',
          sample_task ''t3'' ''p1'' (Str ''done'') ''2025-01-04T00:00:00.000Z'']
   \<and> findIndex (\<lambda>p. strict_eq (Str (p_id p))
         (a_id (no_args\<lparr>a_id := Str ''p2'', a_name := Str ''Renamed''\<rparr>)))
      (projects sample_store) = Some 1
   \<and> a_status (no_args\<lparr>a_id := Str ''p2'', a_name := Str ''Renamed''\<rparr>) = Undefined
   \<and> map p_status (projects (fst (handleUpdateProject ''2025-02-01T00:00:00.000Z''
         (no_args\<lparr>a_id := Str ''p2'', a_name := Str ''Renamed''\<rparr>) sample_store)))
       = [Str ''todo'', Str ''todo'']
   \<and> map p_name (projects (fst (handleUpdateProject ''2025-02-01T00:00:00.000Z''
         (no_args\<lparr>a_id := Str ''p2'', a_name := Str ''Renamed''\<rparr>) sample_store)))
       = [Str ''Project p1'', Str ''Renamed'']"
proof -
  have "findIndex (\<lambda>t. strict_eq (Str (t_id t)) (a_id (no_args\<lparr>a_id := Str ''t2''\<rparr>)))
      (tasks sample_store) = Some 1"
    by code_simp
  moreover have "tasks (fst (handleUpdateTask ''2025-02-01T00:00:00.000Z''
         (no_args\<lparr>a_id := Str ''t2''\<rparr>) sample_store))
       = [sample_task ''t1'' ''p1'' (Str ''todo'') ''2025-01-02T00:00:00.000Z'',
          sample_task ''t2'' ''p2'' (Str ''done'') ''2025-02-01T00:00:00.000Z'',
          sample_task ''t3'' ''p1'' (Str ''done'') ''2025-01-04T00:00:00.000Z'']"
    by code_simp
  moreover have "findIndex (\<lambda>p. strict_eq (Str (p_id p))
         (a_id (no_args\<lparr>a_id := Str ''p2'', a_name := Str ''Renamed''\<rparr>)))
      (projects sample_store) = Some 1"
    by code_simp
  moreover have "a_status (no_args\<lparr>a_id := Str ''p2'', a_name := Str ''Renamed''\<rparr>) = Undefined"
    by code_simp
  moreover have "map p_status (projects (fst (handleUpdateProject ''2025-02-01T00:00:00.000Z''
         (no_args\<lparr>a_id := Str ''p2'', a_name := Str ''Renamed''\<rparr>) sample_store)))
       = [Str ''todo'', Str ''todo'']"
    by code_simp
  moreover have "map p_name (projects (fst (handleUpdateProject ''2025-02-01T00:00:00.000Z''
         (no_args\<lparr>a_id := Str ''p2'', a_name := Str ''Renamed''\<rparr>) sample_store)))
       = [Str ''Project p1'', Str ''Renamed'']"
    by code_simp
  ultimately show ?thesis
    using update_keeps_absent_fields [where s = sample_store and i = 1 and k = 1
        and now = "''2025-02-01T00:00:00.000Z''"
        and targs = "no_args\<lparr>a_id := Str ''t2''\<rparr>"
        and pargs = "no_args\<lparr>a_id := Str ''p2'', a_name := Str ''Renamed''\<rparr>"]
    by simp
qed

section \<open>Deleting a project with its tasks\<close>

text \<open>
  C6 as the code has it. When the id of a \<^verbatim>\<open>delete_project\<close> request resolves to
  the project at index \<open>i\<close> and \<^verbatim>\<open>delete_tasks\<close> is set, the handler removes that
  project and exactly the tasks whose \<^verbatim>\<open>project_id\<close> is its id, leaves every other
  project and task as it was, and then stops with a \<^verbatim>\<open>ReferenceError\<close> at
  \<^verbatim>\<open>if (saveTasks)\<close>: no response, and so no count of removed tasks, is sent.
  A later \<^verbatim>\<open>list_tasks\<close> for that project id returns no task. An id that is the
  id of no project is answered with 404 and the store is left as it was.
\<close>

theorem delete_project_cascade_throws:
  "(findIndex (\<lambda>p. strict_eq (Str (p_id p)) (a_id args)) (projects s) = Some i
      \<and> truthy (a_delete_tasks args) \<longrightarrow>
      handleDeleteProject args s
        = (s\<lparr>projects := splice1 i (projects s),
             tasks := filter (\<lambda>t. t_project_id t \<noteq> Str (p_id (projects s ! i))) (tasks s)\<rparr>,
           Threw (ReferenceError ''saveTasks''))
      \<and> (p_id (projects s ! i) \<noteq> [] \<longrightarrow>
           replied_tasks (handleListTasks parse (no_args\<lparr>a_project_id := a_id args\<rparr>)
             (fst (handleDeleteProject args s))) = []))
   \<and> ((\<forall>p \<in> set (projects s). a_id args \<noteq> Str (p_id p)) \<longrightarrow>
        handleDeleteProject args s = (s, Sent (Status404 ''Project not found'')))"
proof (intro conjI impI)
  assume h: "findIndex (\<lambda>p. strict_eq (Str (p_id p)) (a_id args)) (projects s) = Some i
      \<and> truthy (a_delete_tasks args)"
  then have idx: "findIndex (\<lambda>p. strict_eq (Str (p_id p)) (a_id args)) (projects s) = Some i"
    and casc: "truthy (a_delete_tasks args)"
    by simp_all
  from findIndex_Some [OF idx] have id: "a_id args = Str (p_id (projects s ! i))"
    by simp
  from idx casc id
  show eq: "handleDeleteProject args s
        = (s\<lparr>projects := splice1 i (projects s),
             tasks := filter (\<lambda>t. t_project_id t \<noteq> Str (p_id (projects s ! i))) (tasks s)\<rparr>,
           Threw (ReferenceError ''saveTasks''))"
    by (simp add: handleDeleteProject_def Let_def)
  assume "p_id (projects s ! i) \<noteq> []"
  with id show "replied_tasks (handleListTasks parse (no_args\<lparr>a_project_id := a_id args\<rparr>)
             (fst (handleDeleteProject args s))) = []"
    by (simp add: eq handleListTasks_eq wanted_tasks_def no_args_def filter_wanted_def)
next
  assume "\<forall>p \<in> set (projects s). a_id args \<noteq> Str (p_id p)"
  then have "findIndex (\<lambda>p. strict_eq (Str (p_id p)) (a_id args)) (projects s) = None"
    by (auto simp: findIndex_None_iff)
  then show "handleDeleteProject args s = (s, Sent (Status404 ''Project not found''))"
    by (simp add: handleDeleteProject_def)
qed

theorem delete_project_cascade_throws_witness:
  "findIndex (\<lambda>p. strict_eq (Str (p_id p))
       (a_id (no_args\<lparr>a_id := Str ''p1'', a_delete_tasks := Bool True\<rparr>)))
     (projects sample_store) = Some 0
   \<and> truthy (a_delete_tasks (no_args\<lparr>a_id := Str ''p1'', a_delete_tasks := Bool True\<rparr>))
   \<and> handleDeleteProject (no_args\<lparr>a_id := Str ''p1'', a_delete_tasks := Bool True\<rparr>)
        sample_store
       = (\<lparr>projects = [sample_project ''p2'' (Str ''urgent'') Null],
           tasks = [sample_task ''t2'' ''p2'' (Str ''done'') ''2025-01-03T00:00:00.000Z''],
           lastModified = ''2025-01-01T00:00:00.000Z''\<rparr>,
          Threw (ReferenceError ''saveTasks''))
   \<and> replied_tasks (handleListTasks sample_parse
         (no_args\<lparr>a_project_id := a_id (no_args\<lparr>a_id := Str ''p1'',
                                                    a_delete_tasks := Bool True\<rparr>)\<rparr>)
         (fst (handleDeleteProject (no_args\<lparr>a_id := Str ''p1'', a_delete_tasks := Bool True\<rparr>)
                sample_store))) = []
   \<and> a_id (no_args\<lparr>a_id := Str ''p9''\<rparr>) \<notin> Str ` p_id ` set (projects sample_store)
   \<and> handleDeleteProject (no_args\<lparr>a_id := Str ''p9''\<rparr>) sample_store
       = (sample_store, Sent (Status404 ''Project not found''))"
proof -
  let ?A = "no_args\<lparr>a_id := Str ''p1'', a_delete_tasks := Bool True\<rparr>"
  let ?B = "no_args\<lparr>a_id := Str ''p9''\<rparr>"
  have a: "findIndex (\<lambda>p. strict_eq (Str (p_id p)) (a_id ?A)) (projects sample_store) = Some 0
      \<and> truthy (a_delete_tasks ?A)"
    by code_simp
  have a': "p_id (projects sample_store ! 0) \<noteq> []"
    by code_simp
  have b: "\<forall>p \<in> set (projects sample_store). a_id ?B \<noteq> Str (p_id p)"
    by code_simp
  have "handleDeleteProject ?A sample_store
        = (sample_store\<lparr>projects := splice1 0 (projects sample_store),
             tasks := filter (\<lambda>t. t_project_id t \<noteq> Str (p_id (projects sample_store ! 0)))
                        (tasks sample_store)\<rparr>,
           Threw (ReferenceError ''saveTasks''))"
    using delete_project_cascade_throws [where s = sample_store and args = ?A and i = 0] a
    by blast
  moreover have "replied_tasks (handleListTasks sample_parse
         (no_args\<lparr>a_project_id := a_id ?A\<rparr>) (fst (handleDeleteProject ?A sample_store))) = []"
    using delete_project_cascade_throws [where s = sample_store and args = ?A and i = 0
        and parse = sample_parse] a a'
    by blast
  moreover have "handleDeleteProject ?B sample_store
      = (sample_store, Sent (Status404 ''Project not found''))"
    using delete_project_cascade_throws [where s = sample_store and args = ?B] b
    by blast
  moreover have "a_id ?B \<notin> Str ` p_id ` set (projects sample_store)"
    by code_simp
  ultimately show ?thesis
    using a by (simp add: sample_store_def sample_task_def sample_project_def splice1_def)
qed

section \<open>Moving a task\<close>

text \<open>
  C7. \<^verbatim>\<open>move_task\<close> answers 404 and leaves the store as it was when the request's
  \<^verbatim>\<open>task_id\<close> is the id of no task, and likewise when the task exists and
  \<^verbatim>\<open>new_project_id\<close> is the id of no project. When \<^verbatim>\<open>task_id\<close> resolves to the
  task at index \<open>i\<close> and \<^verbatim>\<open>new_project_id\<close> to a project, the store afterwards
  is the store before with three fields of that one task rewritten: \<^verbatim>\<open>project_id\<close> is
  the id of the project, \<^verbatim>\<open>project_name\<close> its name, \<^verbatim>\<open>updated_at\<close> the time of
  the request.
\<close>

theorem move_task_all_or_nothing:
  "((\<forall>t \<in> set (tasks s). a_task_id args \<noteq> Str (t_id t)) \<longrightarrow>
      handleMoveTask now args s = (s, Sent (Status404 ''Task not found'')))
   \<and> ((\<exists>t \<in> set (tasks s). a_task_id args = Str (t_id t))
        \<and> (\<forall>p \<in> set (projects s). a_new_project_id args \<noteq> Str (p_id p)) \<longrightarrow>
      handleMoveTask now args s = (s, Sent (Status404 ''New project not found'')))
   \<and> (findIndex (\<lambda>t. strict_eq (Str (t_id t)) (a_task_id args)) (tasks s) = Some i
        \<and> find (\<lambda>p. strict_eq (Str (p_id p)) (a_new_project_id args)) (projects s)
            = Some newProject \<longrightarrow>
      fst (handleMoveTask now args s)
        = s\<lparr>tasks := (tasks s)[i := (tasks s ! i)
              \<lparr>t_project_id := Str (p_id newProject),
               t_project_name := p_name newProject,
               t_updated_at := now\<rparr>]\<rparr>)"
proof (intro conjI impI)
  assume "\<forall>t \<in> set (tasks s). a_task_id args \<noteq> Str (t_id t)"
  then have "find (\<lambda>t. strict_eq (Str (t_id t)) (a_task_id args)) (tasks s) = None"
    by (auto simp: find_None_iff)
  then show "handleMoveTask now args s = (s, Sent (Status404 ''Task not found''))"
    by (simp add: handleMoveTask_def)
next
  assume h: "(\<exists>t \<in> set (tasks s). a_task_id args = Str (t_id t))
        \<and> (\<forall>p \<in> set (projects s). a_new_project_id args \<noteq> Str (p_id p))"
  then obtain task where
    "find (\<lambda>t. strict_eq (Str (t_id t)) (a_task_id args)) (tasks s) = Some task"
    by (cases "find (\<lambda>t. strict_eq (Str (t_id t)) (a_task_id args)) (tasks s)")
      (auto simp: find_None_iff)
  moreover from h
  have "find (\<lambda>p. strict_eq (Str (p_id p)) (a_new_project_id args)) (projects s) = None"
    by (auto simp: find_None_iff)
  ultimately show "handleMoveTask now args s = (s, Sent (Status404 ''New project not found''))"
    by (simp add: handleMoveTask_def)
next
  assume h: "findIndex (\<lambda>t. strict_eq (Str (t_id t)) (a_task_id args)) (tasks s) = Some i
        \<and> find (\<lambda>p. strict_eq (Str (p_id p)) (a_new_project_id args)) (projects s)
            = Some newProject"
  then have idx: "findIndex (\<lambda>t. strict_eq (Str (t_id t)) (a_task_id args)) (tasks s) = Some i"
    and prj: "find (\<lambda>p. strict_eq (Str (p_id p)) (a_new_project_id args)) (projects s)
            = Some newProject"
    by simp_all
  from prj have new_id: "a_new_project_id args = Str (p_id newProject)"
    by (auto simp: find_Some_iff)
  from idx have "find (\<lambda>t. strict_eq (Str (t_id t)) (a_task_id args)) (tasks s)
      = Some (tasks s ! i)"
    by (simp add: find_findIndex)
  with prj new_id modify_first_findIndex [OF idx]
  show "fst (handleMoveTask now args s)
        = s\<lparr>tasks := (tasks s)[i := (tasks s ! i)
              \<lparr>t_project_id := Str (p_id newProject),
               t_project_name := p_name newProject,
               t_updated_at := now\<rparr>]\<rparr>"
    by (simp add: handleMoveTask_def)
qed

theorem move_task_all_or_nothing_witness:
  "a_task_id (no_args\<lparr>a_task_id := Str ''t9'', a_new_project_id := Str ''p2''\<rparr>)
      \<notin> Str ` t_id ` set (tasks sample_store)
   \<and> handleMoveTask ''2025-02-01T00:00:00.000Z''
        (no_args\<lparr>a_task_id := Str ''t9'', a_new_project_id := Str ''p2''\<rparr>) sample_store
       = (sample_store, Sent (Status404 ''Task not found''))
   \<and> a_task_id (no_args\<lparr>a_task_id := Str ''t1'', a_new_project_id := Str ''p9''\<rparr>)
      \<in> Str ` t_id ` set (tasks sample_store)
   \<and> a_new_project_id (no_args\<lparr>a_task_id := Str ''t1'', a_new_project_id := Str ''p9''\<rparr>)
      \<notin> Str ` p_id ` set (projects sample_store)
   \<and> handleMoveTask ''2025-02-01T00:00:00.000Z''
        (no_args\<lparr>a_task_id := Str ''t1'', a_new_project_id := Str ''p9''\<rparr>) sample_store
       = (sample_store, Sent (Status404 ''New project not found''))
   \<and> findIndex (\<lambda>t. strict_eq (Str (t_id t))
          (a_task_id (no_args\<lparr>a_task_id := Str ''t1'', a_new_project_id := Str ''p2''\<rparr>)))
        (tasks sample_store) = Some 0
   \<and> find (\<lambda>p. strict_eq (Str (p_id p))
          (a_new_project_id (no_args\<lparr>a_task_id := Str ''t1'', a_new_project_id := Str ''p2''\<rparr>)))
        (projects sample_store) = Some (sample_project ''p2'' (Str ''urgent'') Null)
   \<and> tasks (fst (handleMoveTask ''2025-02-01T00:00:00.000Z''
        (no_args\<lparr>a_task_id := Str ''t1'', a_new_project_id := Str ''p2''\<rparr>) sample_store))
       = [(sample_task ''t1'' ''p2'' (Str ''todo'') ''2025-02-01T00:00:00.000Z''),
          sample_task ''t2'' ''p2'' (Str ''done'') ''2025-01-03T00:00:00.000Z'',
          sample_task ''t3'' ''p1'' (Str ''done'') ''2025-01-04T00:00:00.000Z'']"
proof -
  let ?now = "''2025-02-01T00:00:00.000Z''"
  let ?A = "no_args\<lparr>a_task_id := Str ''t9'', a_new_project_id := Str ''p2''\<rparr>"
  let ?B = "no_args\<lparr>a_task_id := Str ''t1'', a_new_project_id := Str ''p9''\<rparr>"
  let ?C = "no_args\<lparr>a_task_id := Str ''t1'', a_new_project_id := Str ''p2''\<rparr>"
  have a: "\<forall>t \<in> set (tasks sample_store). a_task_id ?A \<noteq> Str (t_id t)"
    by code_simp
  have b: "(\<exists>t \<in> set (tasks sample_store). a_task_id ?B = Str (t_id t))
        \<and> (\<forall>p \<in> set (projects sample_store). a_new_project_id ?B \<noteq> Str (p_id p))"
    by code_simp
  have c: "findIndex (\<lambda>t. strict_eq (Str (t_id t)) (a_task_id ?C)) (tasks sample_store) = Some 0
        \<and> find (\<lambda>p. strict_eq (Str (p_id p)) (a_new_project_id ?C)) (projects sample_store)
            = Some (sample_project ''p2'' (Str ''urgent'') Null)"
    by code_simp
  have "handleMoveTask ?now ?A sample_store = (sample_store, Sent (Status404 ''Task not found''))"
    using move_task_all_or_nothing [where s = sample_store and now = ?now and args = ?A] a
    by blast
  moreover have "handleMoveTask ?now ?B sample_store
      = (sample_store, Sent (Status404 ''New project not found''))"
    using move_task_all_or_nothing [where s = sample_store and now = ?now and args = ?B] b
    by blast
  moreover have "fst (handleMoveTask ?now ?C sample_store)
      = sample_store\<lparr>tasks := (tasks sample_store)[0 := (tasks sample_store ! 0)
              \<lparr>t_project_id := Str (p_id (sample_project ''p2'' (Str ''urgent'') Null)),
               t_project_name := p_name (sample_project ''p2'' (Str ''urgent'') Null),
               t_updated_at := ?now\<rparr>]\<rparr>"
    using move_task_all_or_nothing [where s = sample_store and now = ?now and args = ?C
        and i = 0 and newProject = "sample_project ''p2'' (Str ''urgent'') Null"] c
    by blast
  moreover have "a_task_id ?A \<notin> Str ` t_id ` set (tasks sample_store)"
    by code_simp
  moreover have "a_task_id ?B \<in> Str ` t_id ` set (tasks sample_store)"
    by code_simp
  moreover have "a_new_project_id ?B \<notin> Str ` p_id ` set (projects sample_store)"
    by code_simp
  ultimately show ?thesis
    using c by (simp add: sample_store_def sample_task_def sample_project_def)
qed

section \<open>The summary of a project\<close>




















text \<open>
  C8, as the specification states it, fails where the exact percentage lies half-way
  between two integers. Of forty tasks, twenty-three are done: \<open>23 / 40 * 100\<close> is
  \<open>57.5\<close>, which rounds to \<open>58\<close>. The double nearest to \<open>23 / 40\<close> is smaller than
  \<open>23 / 40\<close>, and so is the double nearest to its product with \<open>100\<close>, which
  \<^verbatim>\<open>Math.round\<close> takes to \<open>57\<close>.
\<close>

theorem completion_percentage_half_way_counterexample:
  "map_option
      (\<lambda>sm. (total_tasks (sm_statistics sm), st_done (sm_statistics sm),
             completion_percentage (sm_statistics sm)))
      (replied_summary (handleGetProjectSummary sample_parse
         (no_args\<lparr>a_id := Str ''p1''\<rparr>) forty_tasks_store))
     = Some (40, 23, 57)
   \<and> (23 / 40 * 100 :: rat) = 57 + 1 / 2
   \<and> spec_completion_percentage 23 40 = 58
   \<and> js_div 23 40 < 23 / 40
   \<and> js_mul (js_div 23 40) 100 < 57 + 1 / 2"
proof (intro conjI)
  show "map_option
      (\<lambda>sm. (total_tasks (sm_statistics sm), st_done (sm_statistics sm),
             completion_percentage (sm_statistics sm)))
      (replied_summary (handleGetProjectSummary sample_parse
         (no_args\<lparr>a_id := Str ''p1''\<rparr>) forty_tasks_store))
     = Some (40, 23, 57)"
    by code_simp
  show "(23 / 40 * 100 :: rat) = 57 + 1 / 2"
    by simp
  show "spec_completion_percentage 23 40 = 58"
    by code_simp
  show "js_div 23 40 < 23 / 40"
    by code_simp
  show "js_mul (js_div 23 40) 100 < 57 + 1 / 2"
    by code_simp
qed

section \<open>The project name cached in a task\<close>

lemma set_splice1: "set (splice1 i xs) \<subseteq> set xs"
  unfolding splice1_def using set_take_subset [of i xs] set_drop_subset [of "Suc i" xs]
  by auto

lemma live_project_name_with_project_name [simp]:
  "live_project_name s (with_project_name s' t) = live_project_name s t"
  by (simp add: live_project_name_def with_project_name_def)

text \<open>
  C9. \<^verbatim>\<open>update_project\<close> leaves every task as it was, the cached
  \<^verbatim>\<open>project_name\<close> included, whatever the request renames. Every task that
  \<^verbatim>\<open>list_tasks\<close> returns shows the name of the stored project that its
  \<^verbatim>\<open>project_id\<close> resolves to at the time of the call. Of the other handlers,
  \<^verbatim>\<open>create_project\<close> leaves the tasks as they were, \<^verbatim>\<open>update_task\<close> leaves every
  task's cached name as it was, and the two delete handlers leave every task that
  remains with the cached name it had.
\<close>

theorem update_project_keeps_cached_name:
  "tasks (fst (handleUpdateProject now args s)) = tasks s
   \<and> (\<forall>t \<in> set (replied_tasks (handleListTasks parse largs s)).
         t_project_name t = live_project_name s t)
   \<and> tasks (fst (handleCreateProject uuid now args s)) = tasks s
   \<and> map t_project_name (tasks (fst (handleUpdateTask now args s))) = map t_project_name (tasks s)
   \<and> set (map (\<lambda>t. (t_id t, t_project_name t)) (tasks (fst (handleDeleteTask args s))))
        \<subseteq> set (map (\<lambda>t. (t_id t, t_project_name t)) (tasks s))
   \<and> set (map (\<lambda>t. (t_id t, t_project_name t)) (tasks (fst (handleDeleteProject args s))))
        \<subseteq> set (map (\<lambda>t. (t_id t, t_project_name t)) (tasks s))"
proof (intro conjI)
  show "tasks (fst (handleUpdateProject now args s)) = tasks s"
    by (simp add: handleUpdateProject_def Let_def split: option.split)
  show "\<forall>t \<in> set (replied_tasks (handleListTasks parse largs s)).
         t_project_name t = live_project_name s t"
    by (auto simp: handleListTasks_eq) (simp add: with_project_name_def)
  show "tasks (fst (handleCreateProject uuid now args s)) = tasks s"
    by (simp add: handleCreateProject_def Let_def)
  show "map t_project_name (tasks (fst (handleUpdateTask now args s)))
      = map t_project_name (tasks s)"
  proof (cases "findIndex (\<lambda>t. strict_eq (Str (t_id t)) (a_id args)) (tasks s)")
    case None
    then show ?thesis by (simp add: handleUpdateTask_def)
  next
    case (Some i)
    then have "i < length (tasks s)" by (simp add: findIndex_Some)
    then show ?thesis
      by (simp add: handleUpdateTask_found [OF Some] map_update list_update_same_conv)
  qed
  show "set (map (\<lambda>t. (t_id t, t_project_name t)) (tasks (fst (handleDeleteTask args s))))
        \<subseteq> set (map (\<lambda>t. (t_id t, t_project_name t)) (tasks s))"
  proof (cases "findIndex (\<lambda>t. strict_eq (Str (t_id t)) (a_id args)) (tasks s)")
    case None
    then show ?thesis by (simp add: handleDeleteTask_def)
  next
    case (Some i)
    have "map (\<lambda>t. (t_id t, t_project_name t)) (tasks (fst (handleDeleteTask args s)))
        = map (\<lambda>t. (t_id t, t_project_name t)) (splice1 i (tasks s))"
      using Some by (simp add: handleDeleteTask_def Let_def map_modify_first)
    with set_splice1 [of i "tasks s"] show ?thesis by auto
  qed
  show "set (map (\<lambda>t. (t_id t, t_project_name t)) (tasks (fst (handleDeleteProject args s))))
        \<subseteq> set (map (\<lambda>t. (t_id t, t_project_name t)) (tasks s))"
    by (auto simp: handleDeleteProject_def Let_def split: option.split)
qed

theorem update_project_keeps_cached_name_witness:
  "map t_project_name (tasks (fst (handleUpdateProject ''2025-02-01T00:00:00.000Z''
       (no_args\<lparr>a_id := Str ''p1'', a_name := Str ''Relaunch''\<rparr>) sample_store)))
     = [Str ''Project p1'', Str ''Project p2'', Str ''Project p1'']
   \<and> map p_name (projects (fst (handleUpdateProject ''2025-02-01T00:00:00.000Z''
       (no_args\<lparr>a_id := Str ''p1'', a_name := Str ''Relaunch''\<rparr>) sample_store)))
     = [Str ''Relaunch'', Str ''Project p2'']
   \<and> map t_project_name (replied_tasks (handleListTasks sample_parse no_args
        (fst (handleUpdateProject ''2025-02-01T00:00:00.000Z''
           (no_args\<lparr>a_id := Str ''p1'', a_name := Str ''Relaunch''\<rparr>) sample_store))))
     = [Str ''Relaunch'', Str ''Project p2'', Str ''Relaunch'']"
proof -
  let ?s' = "fst (handleUpdateProject ''2025-02-01T00:00:00.000Z''
       (no_args\<lparr>a_id := Str ''p1'', a_name := Str ''Relaunch''\<rparr>) sample_store)"
  have "tasks ?s' = tasks sample_store"
    using update_project_keeps_cached_name [where s = sample_store
        and now = "''2025-02-01T00:00:00.000Z''"
        and args = "no_args\<lparr>a_id := Str ''p1'', a_name := Str ''Relaunch''\<rparr>"]
    by blast
  then have "map t_project_name (tasks ?s')
      = [Str ''Project p1'', Str ''Project p2'', Str ''Project p1'']"
    by (simp add: sample_store_def sample_task_def)
  moreover have "map p_name (projects ?s') = [Str ''Relaunch'', Str ''Project p2'']"
    by code_simp
  moreover have "map t_project_name (replied_tasks (handleListTasks sample_parse no_args ?s'))
     = [Str ''Relaunch'', Str ''Project p2'', Str ''Relaunch'']"
    by code_simp
  ultimately show ?thesis by simp
qed

section \<open>Updates store any string\<close>

text \<open>
  C10 as the code has it. \<^verbatim>\<open>update_task\<close> on an id that resolves to the task at
  index \<open>i\<close>, with any string \<open>v\<close> as status and as priority, stores \<open>v\<close> in both
  fields without any check, and then stops with a \<^verbatim>\<open>ReferenceError\<close> at
  \<^verbatim>\<open>if (saveTasks)\<close> before a response is sent. \<^verbatim>\<open>update_project\<close> does the same
  to the project at index \<open>k\<close>, stopping at \<^verbatim>\<open>if (saveProjects)\<close>.
\<close>

theorem update_stores_any_string_then_throws:
  "(findIndex (\<lambda>t. strict_eq (Str (t_id t)) (a_id targs)) (tasks s) = Some i
      \<and> a_status targs = Str v \<and> a_priority targs = Str v \<longrightarrow>
      snd (handleUpdateTask now targs s) = Threw (ReferenceError ''saveTasks'')
      \<and> length (tasks (fst (handleUpdateTask now targs s))) = length (tasks s)
      \<and> t_status (tasks (fst (handleUpdateTask now targs s)) ! i) = Str v
      \<and> t_priority (tasks (fst (handleUpdateTask now targs s)) ! i) = Str v)
   \<and> (findIndex (\<lambda>p. strict_eq (Str (p_id p)) (a_id pargs)) (projects s) = Some k
      \<and> a_status pargs = Str v \<and> a_priority pargs = Str v \<longrightarrow>
      snd (handleUpdateProject now pargs s) = Threw (ReferenceError ''saveProjects'')
      \<and> length (projects (fst (handleUpdateProject now pargs s))) = length (projects s)
      \<and> p_status (projects (fst (handleUpdateProject now pargs s)) ! k) = Str v
      \<and> p_priority (projects (fst (handleUpdateProject now pargs s)) ! k) = Str v)"
proof (intro conjI impI)
  assume h: "findIndex (\<lambda>t. strict_eq (Str (t_id t)) (a_id targs)) (tasks s) = Some i
      \<and> a_status targs = Str v \<and> a_priority targs = Str v"
  then have idx: "findIndex (\<lambda>t. strict_eq (Str (t_id t)) (a_id targs)) (tasks s) = Some i"
    by simp
  then have i: "i < length (tasks s)" by (simp add: findIndex_Some)
  show "snd (handleUpdateTask now targs s) = Threw (ReferenceError ''saveTasks'')"
    by (simp add: handleUpdateTask_found [OF idx])
  show "length (tasks (fst (handleUpdateTask now targs s))) = length (tasks s)"
    by (simp add: handleUpdateTask_found [OF idx])
  show "t_status (tasks (fst (handleUpdateTask now targs s)) ! i) = Str v"
    using h i by (simp add: handleUpdateTask_found [OF idx])
  show "t_priority (tasks (fst (handleUpdateTask now targs s)) ! i) = Str v"
    using h i by (simp add: handleUpdateTask_found [OF idx])
next
  assume h: "findIndex (\<lambda>p. strict_eq (Str (p_id p)) (a_id pargs)) (projects s) = Some k
      \<and> a_status pargs = Str v \<and> a_priority pargs = Str v"
  then have idx: "findIndex (\<lambda>p. strict_eq (Str (p_id p)) (a_id pargs)) (projects s) = Some k"
    by simp
  then have k: "k < length (projects s)" by (simp add: findIndex_Some)
  show "snd (handleUpdateProject now pargs s) = Threw (ReferenceError ''saveProjects'')"
    by (simp add: handleUpdateProject_found [OF idx])
  show "length (projects (fst (handleUpdateProject now pargs s))) = length (projects s)"
    by (simp add: handleUpdateProject_found [OF idx])
  show "p_status (projects (fst (handleUpdateProject now pargs s)) ! k) = Str v"
    using h k by (simp add: handleUpdateProject_found [OF idx])
  show "p_priority (projects (fst (handleUpdateProject now pargs s)) ! k) = Str v"
    using h k by (simp add: handleUpdateProject_found [OF idx])
qed

theorem update_stores_any_string_then_throws_witness:
  "findIndex (\<lambda>t. strict_eq (Str (t_id t))
       (a_id (no_args\<lparr>a_id := Str ''t1'', a_status := Str ''bogus'', a_priority := Str ''bogus''\<rparr>)))
     (tasks sample_store) = Some 0
   \<and> handleUpdateTask ''2025-02-01T00:00:00.000Z''
       (no_args\<lparr>a_id := Str ''t1'', a_status := Str ''bogus'', a_priority := Str ''bogus''\<rparr>)
       sample_store
     = (sample_store\<lparr>tasks :=
          [(sample_task ''t1'' ''p1'' (Str ''bogus'') ''2025-02-01T00:00:00.000Z'')
             \<lparr>t_priority := Str ''bogus''\<rparr>,
           sample_task ''t2'' ''p2'' (Str ''done'') ''2025-01-03T00:00:00.000Z'',
           sample_task ''t3'' ''p1'' (Str ''done'') ''2025-01-04T00:00:00.000Z'']\<rparr>,
        Threw (ReferenceError ''saveTasks''))
   \<and> findIndex (\<lambda>p. strict_eq (Str (p_id p))
       (a_id (no_args\<lparr>a_id := Str ''p2'', a_status := Str ''bogus'', a_priority := Str ''bogus''\<rparr>)))
     (projects sample_store) = Some 1
   \<and> snd (handleUpdateProject ''2025-02-01T00:00:00.000Z''
       (no_args\<lparr>a_id := Str ''p2'', a_status := Str ''bogus'', a_priority := Str ''bogus''\<rparr>)
       sample_store)
     = Threw (ReferenceError ''saveProjects'')
   \<and> map p_priority (projects (fst (handleUpdateProject ''2025-02-01T00:00:00.000Z''
       (no_args\<lparr>a_id := Str ''p2'', a_status := Str ''bogus'', a_priority := Str ''bogus''\<rparr>)
       sample_store)))
     = [Str ''medium'', Str ''bogus'']"
proof -
  let ?now = "''2025-02-01T00:00:00.000Z''"
  let ?T = "no_args\<lparr>a_id := Str ''t1'', a_status := Str ''bogus'', a_priority := Str ''bogus''\<rparr>"
  let ?P = "no_args\<lparr>a_id := Str ''p2'', a_status := Str ''bogus'', a_priority := Str ''bogus''\<rparr>"
  have t: "findIndex (\<lambda>t. strict_eq (Str (t_id t)) (a_id ?T)) (tasks sample_store) = Some 0
      \<and> a_status ?T = Str ''bogus'' \<and> a_priority ?T = Str ''bogus''"
    by code_simp
  have p: "findIndex (\<lambda>p. strict_eq (Str (p_id p)) (a_id ?P)) (projects sample_store) = Some 1
      \<and> a_status ?P = Str ''bogus'' \<and> a_priority ?P = Str ''bogus''"
    by code_simp
  have "snd (handleUpdateTask ?now ?T sample_store) = Threw (ReferenceError ''saveTasks'')"
    using update_stores_any_string_then_throws [where s = sample_store and now = ?now
        and targs = ?T and i = 0 and v = "''bogus''"] t
    by blast
  moreover have "snd (handleUpdateProject ?now ?P sample_store)
      = Threw (ReferenceError ''saveProjects'')"
    using update_stores_any_string_then_throws [where s = sample_store and now = ?now
        and pargs = ?P and k = 1 and v = "''bogus''"] p
    by blast
  moreover have "fst (handleUpdateTask ?now ?T sample_store)
     = sample_store\<lparr>tasks :=
          [(sample_task ''t1'' ''p1'' (Str ''bogus'') ''2025-02-01T00:00:00.000Z'')
             \<lparr>t_priority := Str ''bogus''\<rparr>,
           sample_task ''t2'' ''p2'' (Str ''done'') ''2025-01-03T00:00:00.000Z'',
           sample_task ''t3'' ''p1'' (Str ''done'') ''2025-01-04T00:00:00.000Z'']\<rparr>"
    by code_simp
  moreover have "map p_priority (projects (fst (handleUpdateProject ?now ?P sample_store)))
     = [Str ''medium'', Str ''bogus'']"
    by code_simp
  ultimately show ?thesis
    using t p by (simp add: prod_eq_iff)
qed

end
